theory Spec2Isabelle
  imports Complex_Main "HOL-Library.Word"
begin

section \<open>F5-Spanish TTS API: a shallow embedding of \<^verbatim>\<open>main.py\<close>\<close>

text \<open>
  The service is a thin wrapper around external libraries (the F5-TTS model, soundfile,
  tempfile, pip).  The embedding keeps the control flow of \<^verbatim>\<open>main.py\<close>
  statement by statement and makes everything the module does to the outside world
  explicit:

  \<^item> the module globals \<^verbatim>\<open>model\<close>, \<^verbatim>\<open>vocoder\<close>, \<^verbatim>\<open>device\<close> and the filesystem
    are fields of a \<open>state\<close> record that every operation takes and returns;
  \<^item> every call that leaves the module (clock, tempfile, upload, model, soundfile,
    unlink, import, pip) appends an \<open>event\<close> to the trace of the state;
  \<^item> what the outside world answers is a parameter, the record \<open>env\<close>: for every call
    site whether it raises, and for the model and the encoder what they return;
  \<^item> an exception is a value: a handler returns \<open>http_exception + response\<close>;
  \<^item> a request reaches a handler through its route: for \<^verbatim>\<open>POST /synthesize\<close> the
    framework first checks the form against the parameters the route declares, and
    answers 422 itself when the check fails.

  Python \<^verbatim>\<open>str\<close> is a list of code points, \<^verbatim>\<open>bytes\<close> a list of 8-bit words, a
  \<^verbatim>\<open>float\<close> a real number (rounding is not modelled).  Exceptions are the subclasses
  of \<^verbatim>\<open>Exception\<close>; \<^verbatim>\<open>logger\<close> calls are left out: they change nothing the
  module reads and the logging module does not raise.
\<close>

subsection \<open>Strings, bytes and exceptions\<close>

type_synonym pystr = "nat list"
type_synonym bytes = "8 word list"
type_synonym path = string

definition str_lit :: "string \<Rightarrow> pystr" where
  "str_lit cs = map of_char cs"

text \<open>The code points for which \<^verbatim>\<open>str.isspace\<close> holds (CPython's table).\<close>

definition py_isspace :: "nat \<Rightarrow> bool" where
  "py_isspace c \<longleftrightarrow>
     (9 \<le> c \<and> c \<le> 13) \<or> (28 \<le> c \<and> c \<le> 32) \<or> c = 133 \<or> c = 160 \<or> c = 5760 \<or>
     (8192 \<le> c \<and> c \<le> 8202) \<or> c = 8232 \<or> c = 8233 \<or> c = 8239 \<or> c = 8287 \<or> c = 12288"

text \<open>\<^verbatim>\<open>str.strip()\<close>: leading and trailing whitespace removed.\<close>

definition strip :: "pystr \<Rightarrow> pystr" where
  "strip t = rev (dropWhile py_isspace (rev (dropWhile py_isspace t)))"

datatype exc = ImportError pystr | OtherException pystr

text \<open>\<^verbatim>\<open>str(e)\<close>\<close>

fun str_exc :: "exc \<Rightarrow> pystr" where
  "str_exc (ImportError msg) = msg"
| "str_exc (OtherException msg) = msg"

datatype http_exception = HTTPException (status_code: nat) (detail: pystr)

text \<open>A handler's return value is a dict literal with string keys.\<close>

datatype json = JBool bool | JStr pystr | JInt int | JFloat real

type_synonym response = "(string \<times> json) list"

subsection \<open>\<^verbatim>\<open>base64.b64encode\<close>\<close>

text \<open>The digits \<open>A-Z\<close>, \<open>a-z\<close>, \<open>0-9\<close>, \<open>+\<close> and \<open>/\<close> as code points.\<close>

definition b64_digit :: "nat \<Rightarrow> nat" where
  "b64_digit n =
     (let d = n mod 64 in
      if d < 26 then 65 + d
      else if d < 52 then 71 + d
      else if d < 62 then d - 4
      else if d = 62 then 43
      else 47)"

text \<open>
  Three bytes give four digits of six bits each; a last group of one or two bytes is
  padded with \<open>=\<close> (61).
\<close>

fun b64encode :: "bytes \<Rightarrow> pystr" where
  "b64encode [] = []"
| "b64encode [a] =
     (let A = unat a in [b64_digit (A div 4), b64_digit (A mod 4 * 16), 61, 61])"
| "b64encode [a, b] =
     (let A = unat a; B = unat b in
      [b64_digit (A div 4), b64_digit (A mod 4 * 16 + B div 16), b64_digit (B mod 16 * 4), 61])"
| "b64encode (a # b # c # rest) =
     (let A = unat a; B = unat b; C = unat c in
      [b64_digit (A div 4), b64_digit (A mod 4 * 16 + B div 16),
       b64_digit (B mod 16 * 4 + C div 64), b64_digit (C mod 64)]
      @ b64encode rest)"

text \<open>
  Base64 as RFC 4648 reads it: the value of a digit, and the bytes of a text of groups of
  four digits whose last group may be padded.  It is the yardstick for \<open>b64encode\<close>
  above; the module does not decode.
\<close>

definition b64_value :: "nat \<Rightarrow> nat option" where
  "b64_value c =
     (if 65 \<le> c \<and> c \<le> 90 then Some (c - 65)
      else if 97 \<le> c \<and> c \<le> 122 then Some (c - 71)
      else if 48 \<le> c \<and> c \<le> 57 then Some (c + 4)
      else if c = 43 then Some 62
      else if c = 47 then Some 63
      else None)"

fun b64decode :: "pystr \<Rightarrow> bytes option" where
  "b64decode [] = Some []"
| "b64decode (c1 # c2 # c3 # c4 # rest) =
     (case b64_value c1 of
        None \<Rightarrow> None
      | Some v1 \<Rightarrow>
          (case b64_value c2 of
             None \<Rightarrow> None
           | Some v2 \<Rightarrow>
               if c3 = 61 \<and> c4 = 61 \<and> rest = []
               then Some [of_nat (v1 * 4 + v2 div 16)]
               else
                 (case b64_value c3 of
                    None \<Rightarrow> None
                  | Some v3 \<Rightarrow>
                      if c4 = 61 \<and> rest = []
                      then Some [of_nat (v1 * 4 + v2 div 16), of_nat (v2 mod 16 * 16 + v3 div 4)]
                      else
                        (case b64_value c4 of
                           None \<Rightarrow> None
                         | Some v4 \<Rightarrow>
                             (case b64decode rest of
                                None \<Rightarrow> None
                              | Some bs \<Rightarrow>
                                  Some (of_nat (v1 * 4 + v2 div 16) #
                                        of_nat (v2 mod 16 * 16 + v3 div 4) #
                                        of_nat (v3 mod 4 * 64 + v4) # bs))))))"
| "b64decode cs = None"

subsection \<open>Module state and the outside world\<close>

datatype device = Cpu

text \<open>\<^verbatim>\<open>str(device)\<close>\<close>

fun str_device :: "device \<Rightarrow> pystr" where
  "str_device Cpu = str_lit ''cpu''"

text \<open>The model object: the arguments \<^verbatim>\<open>F5TTS(...)\<close> was constructed with.\<close>

record f5tts =
  model_type :: pystr
  ckpt_file :: "pystr option"
  vocab_file :: "pystr option"
  on_device :: device

type_synonym waveform = "real list"

text \<open>What \<^verbatim>\<open>model.infer\<close> returns: a \<^verbatim>\<open>torch.Tensor\<close> or anything else.\<close>

datatype audio_data = Tensor waveform | NotTensor waveform

text \<open>The call sites that may raise, and the calls recorded in the trace.\<close>

datatype site =
    ImportF5TTS nat
  | PipInstall
  | ConstructF5TTS
  | MkTemp nat
  | ReadUpload
  | WriteFile path
  | ImportSoundfile
  | ReadBack path
  | Unlink path

datatype event =
    Ev_Time
  | Ev_Import
  | Ev_PipInstall
  | Ev_Construct
  | Ev_MkTemp path
  | Ev_ReadUpload
  | Ev_Write path
  | Ev_Infer path pystr pystr
  | Ev_SfWrite path nat
  | Ev_ReadBack path
  | Ev_Unlink path

record env =
  clock :: "nat \<Rightarrow> real"
  tmp_candidates :: "nat \<Rightarrow> path list"
  raises :: "site \<Rightarrow> exc option"
  infer :: "f5tts \<Rightarrow> path \<Rightarrow> bytes option \<Rightarrow> pystr \<Rightarrow> pystr \<Rightarrow> real \<Rightarrow> bool \<Rightarrow> exc + audio_data"
  sf_write :: "path \<Rightarrow> waveform \<Rightarrow> nat \<Rightarrow> exc + bytes"
  parse_float :: "pystr \<Rightarrow> real option"
  parse_bool :: "pystr \<Rightarrow> bool option"

text \<open>
  \<open>clock E n\<close> is what the \<open>n\<close>-th call of \<^verbatim>\<open>time.time()\<close> returns;
  \<open>tmp_candidates E n\<close> are the names the \<open>n\<close>-th call of \<^verbatim>\<open>NamedTemporaryFile\<close>
  tries, before the suffix; \<open>sf_write E p w rate\<close> is the content \<^verbatim>\<open>sf.write\<close> leaves
  in the file \<open>p\<close>; \<open>parse_float\<close> and \<open>parse_bool\<close> are the framework's reading of
  a form value as a \<^verbatim>\<open>float\<close> and as a \<^verbatim>\<open>bool\<close>, \<open>None\<close> when it refuses the value.
\<close>

record state =
  model :: "f5tts option"
  vocoder :: "unit option"
  device :: "device option"
  files :: "path \<rightharpoonup> bytes"
  clock_reads :: nat
  tmp_calls :: nat
  trace :: "event list"

text \<open>Lines 31-34: the globals when the module has been imported.\<close>

definition module_init :: "(path \<rightharpoonup> bytes) \<Rightarrow> state" where
  "module_init fs =
     \<lparr>model = None, vocoder = None, device = None, files = fs,
      clock_reads = 0, tmp_calls = 0, trace = []\<rparr>"

definition emit :: "event \<Rightarrow> state \<Rightarrow> state" where
  "emit ev s = s\<lparr>trace := trace s @ [ev]\<rparr>"

definition time_time :: "env \<Rightarrow> state \<Rightarrow> real \<times> state" where
  "time_time E s =
     (clock E (clock_reads s), emit Ev_Time (s\<lparr>clock_reads := Suc (clock_reads s)\<rparr>))"

text \<open>
  \<^verbatim>\<open>tempfile.NamedTemporaryFile(delete=False, suffix=".wav")\<close>: the first candidate
  name that does not exist is created, empty (the file is opened with \<^verbatim>\<open>O_EXCL\<close>).
\<close>

definition NamedTemporaryFile :: "env \<Rightarrow> state \<Rightarrow> (exc + path) \<times> state" where
  "NamedTemporaryFile E s =
     (let n = tmp_calls s; s1 = s\<lparr>tmp_calls := Suc n\<rparr> in
      case raises E (MkTemp n) of
        Some e \<Rightarrow> (Inl e, s1)
      | None \<Rightarrow>
          (case find (\<lambda>p. files s p = None) (map (\<lambda>c. c @ ''.wav'') (tmp_candidates E n)) of
             None \<Rightarrow> (Inl (OtherException (str_lit ''No usable temporary file name found'')), s1)
           | Some p \<Rightarrow> (Inr p, emit (Ev_MkTemp p) (s1\<lparr>files := (files s)(p \<mapsto> [])\<rparr>))))"

text \<open>\<^verbatim>\<open>os.unlink(p)\<close>: the exception raised, if any.\<close>

definition os_unlink :: "env \<Rightarrow> path \<Rightarrow> state \<Rightarrow> exc option \<times> state" where
  "os_unlink E p s =
     (let s1 = emit (Ev_Unlink p) s in
      case raises E (Unlink p) of
        Some e \<Rightarrow> (Some e, s1)
      | None \<Rightarrow>
          if files s p = None
          then (Some (OtherException (str_lit ''No such file or directory'')), s1)
          else (None, s1\<lparr>files := (files s)(p := None)\<rparr>))"

subsection \<open>The model loader (lines 36-89)\<close>

text \<open>
  \<^verbatim>\<open>install_f5_tts\<close> runs pip once; its handler logs and re-raises, so the exception
  of \<^verbatim>\<open>check_call\<close> is the function's own.
\<close>

definition install_f5_tts :: "env \<Rightarrow> state \<Rightarrow> exc option \<times> state" where
  "install_f5_tts E s = (raises E PipInstall, emit Ev_PipInstall s)"

text \<open>\<^verbatim>\<open>from f5_tts.api import F5TTS\<close>, the \<open>k\<close>-th time it is executed.\<close>

definition import_f5_tts :: "env \<Rightarrow> nat \<Rightarrow> state \<Rightarrow> exc option \<times> state" where
  "import_f5_tts E k s = (raises E (ImportF5TTS k), emit Ev_Import s)"

text \<open>
  The body of the \<^verbatim>\<open>try\<close> of \<^verbatim>\<open>load_model\<close>.  Only an \<^verbatim>\<open>ImportError\<close> of the
  first import leads to the installation; \<open>model\<close> is assigned when the constructor
  has returned.
\<close>

definition load_model_body :: "env \<Rightarrow> state \<Rightarrow> (exc + bool) \<times> state" where
  "load_model_body E s =
     (let (start_time, s1) = time_time E s;
          s2 = s1\<lparr>device := Some Cpu\<rparr>;
          (import_failure, s3) =
            (case import_f5_tts E 0 s2 of
               (Some (ImportError msg), sa) \<Rightarrow>
                 (case install_f5_tts E sa of
                    (Some e, sb) \<Rightarrow> (Some e, sb)
                  | (None, sb) \<Rightarrow> import_f5_tts E 1 sb)
             | (Some (OtherException msg), sa) \<Rightarrow> (Some (OtherException msg), sa)
             | (None, sa) \<Rightarrow> (None, sa))
      in case import_failure of
           Some e \<Rightarrow> (Inl e, s3)
         | None \<Rightarrow>
             (let s4 = emit Ev_Construct s3 in
              case raises E ConstructF5TTS of
                Some e \<Rightarrow> (Inl e, s4)
              | None \<Rightarrow>
                  (let s5 = s4\<lparr>model := Some \<lparr>model_type = str_lit ''F5-TTS'', ckpt_file = None,
                                               vocab_file = None, on_device = Cpu\<rparr>\<rparr>;
                       (now, s6) = time_time E s5;
                       load_time = now - start_time
                   in (Inr True, s6))))"

text \<open>\<^verbatim>\<open>except Exception as e: ... return False\<close>\<close>

definition load_model :: "env \<Rightarrow> state \<Rightarrow> (exc + bool) \<times> state" where
  "load_model E s =
     (case load_model_body E s of
        (Inl e, s') \<Rightarrow> (Inr False, s')
      | (Inr b, s') \<Rightarrow> (Inr b, s'))"

definition startup_event :: "env \<Rightarrow> state \<Rightarrow> exc option \<times> state" where
  "startup_event E s =
     (case load_model E s of
        (Inl e, s') \<Rightarrow> (Some e, s')
      | (Inr success, s') \<Rightarrow> (None, s'))"

subsection \<open>Status handlers (lines 91-107)\<close>

definition root :: "state \<Rightarrow> response \<times> state" where
  "root s =
     ([(''message'', JStr (str_lit ''F5-Spanish TTS API funcionando'')),
       (''model_loaded'', JBool (model s \<noteq> None)),
       (''device'', JStr (case device s of Some d \<Rightarrow> str_device d
                                          | None \<Rightarrow> str_lit ''No disponible''))], s)"

definition health_check :: "env \<Rightarrow> state \<Rightarrow> response \<times> state" where
  "health_check E s =
     (let (now, s1) = time_time E s in
      ([(''status'', JStr (str_lit ''healthy'')),
        (''model_ready'', JBool (model s \<noteq> None)),
        (''timestamp'', JFloat now)], s1))"

subsection \<open>The synthesis handler (lines 109-199)\<close>

text \<open>
  Lines 134-137, the first \<^verbatim>\<open>with\<close> block: the scratch file is created, the upload
  is read and written to it.  An exception of the read or of the write leaves the
  block with the file in place.
\<close>

definition save_ref_audio :: "env \<Rightarrow> bytes \<Rightarrow> state \<Rightarrow> (exc + path) \<times> state" where
  "save_ref_audio E ref_audio s =
     (case NamedTemporaryFile E s of
        (Inl e, s1) \<Rightarrow> (Inl e, s1)
      | (Inr temp_audio, s1) \<Rightarrow>
          (let s2 = emit Ev_ReadUpload s1 in
           case raises E ReadUpload of
             Some e \<Rightarrow> (Inl e, s2)
           | None \<Rightarrow>
               (let s3 = emit (Ev_Write temp_audio) s2 in
                case raises E (WriteFile temp_audio) of
                  Some e \<Rightarrow> (Inl e, s3)
                | None \<Rightarrow> (Inr temp_audio, s3\<lparr>files := (files s3)(temp_audio \<mapsto> ref_audio)\<rparr>))))"

text \<open>Lines 158-161.\<close>

fun to_numpy :: "audio_data \<Rightarrow> waveform" where
  "to_numpy (Tensor w) = w"
| "to_numpy (NotTensor w) = w"

text \<open>
  Lines 164-170, the second \<^verbatim>\<open>with\<close> block: \<^verbatim>\<open>sf.write\<close> fills the scratch file
  at 24000 Hz and the file is read back.  The second component is the name bound to
  \<^verbatim>\<open>temp_output\<close>, if the block has been entered.
\<close>

definition encode_wav :: "env \<Rightarrow> waveform \<Rightarrow> state \<Rightarrow> (exc + bytes) \<times> path option \<times> state" where
  "encode_wav E audio_numpy s =
     (case NamedTemporaryFile E s of
        (Inl e, s1) \<Rightarrow> (Inl e, None, s1)
      | (Inr temp_output, s1) \<Rightarrow>
          (case raises E ImportSoundfile of
             Some e \<Rightarrow> (Inl e, Some temp_output, s1)
           | None \<Rightarrow>
               (let s2 = emit (Ev_SfWrite temp_output 24000) s1 in
                case sf_write E temp_output audio_numpy 24000 of
                  Inl e \<Rightarrow> (Inl e, Some temp_output, s2)
                | Inr encoded \<Rightarrow>
                    (let s3 = emit (Ev_ReadBack temp_output)
                                (s2\<lparr>files := (files s2)(temp_output \<mapsto> encoded)\<rparr>) in
                     case raises E (ReadBack temp_output) of
                       Some e \<Rightarrow> (Inl e, Some temp_output, s3)
                     | None \<Rightarrow> (Inr encoded, Some temp_output, s3)))))"

text \<open>Lines 140-186, the body of the inner \<^verbatim>\<open>try\<close>.\<close>

definition infer_and_encode ::
  "env \<Rightarrow> f5tts \<Rightarrow> pystr \<Rightarrow> pystr \<Rightarrow> real \<Rightarrow> bool \<Rightarrow> real \<Rightarrow> path \<Rightarrow> state
   \<Rightarrow> (exc + response) \<times> path option \<times> state" where
  "infer_and_encode E m text ref_text speed remove_silence start_time temp_audio_path s =
     (let s1 = emit (Ev_Infer temp_audio_path ref_text text) s in
      case infer E m temp_audio_path (files s temp_audio_path) ref_text text speed remove_silence of
        Inl e \<Rightarrow> (Inl e, None, s1)
      | Inr audio_data \<Rightarrow>
          (case encode_wav E (to_numpy audio_data) s1 of
             (Inl e, temp_output, s2) \<Rightarrow> (Inl e, temp_output, s2)
           | (Inr audio_bytes, temp_output, s2) \<Rightarrow>
               (let audio_base64 = b64encode audio_bytes;
                    (now, s3) = time_time E s2;
                    processing_time = now - start_time
                in (Inr [(''success'', JBool True),
                         (''audio_base64'', JStr audio_base64),
                         (''format'', JStr (str_lit ''wav'')),
                         (''sample_rate'', JInt 24000),
                         (''processing_time'', JFloat processing_time),
                         (''text_length'', JInt (int (length text))),
                         (''ref_text'', JStr ref_text)],
                    temp_output, s3))))"

text \<open>
  Lines 188-195, the \<^verbatim>\<open>finally\<close>: both \<^verbatim>\<open>unlink\<close> calls are in one \<^verbatim>\<open>try\<close>
  whose handler is \<^verbatim>\<open>pass\<close>, so an exception of the first one skips the second.
\<close>

definition cleanup :: "env \<Rightarrow> path \<Rightarrow> path option \<Rightarrow> state \<Rightarrow> state" where
  "cleanup E temp_audio_path temp_output s =
     (case os_unlink E temp_audio_path s of
        (Some e, s1) \<Rightarrow> s1
      | (None, s1) \<Rightarrow>
          (case temp_output of
             None \<Rightarrow> s1
           | Some out \<Rightarrow> snd (os_unlink E out s1)))"

text \<open>Lines 129-195, the body of the outer \<^verbatim>\<open>try\<close>.\<close>

definition synthesize_body ::
  "env \<Rightarrow> f5tts \<Rightarrow> pystr \<Rightarrow> bytes \<Rightarrow> pystr \<Rightarrow> real \<Rightarrow> bool \<Rightarrow> state \<Rightarrow> (exc + response) \<times> state" where
  "synthesize_body E m text ref_audio ref_text speed remove_silence s =
     (let (start_time, s1) = time_time E s in
      case save_ref_audio E ref_audio s1 of
        (Inl e, s2) \<Rightarrow> (Inl e, s2)
      | (Inr temp_audio_path, s2) \<Rightarrow>
          (case infer_and_encode E m text ref_text speed remove_silence start_time
                  temp_audio_path s2 of
             (result, temp_output, s3) \<Rightarrow> (result, cleanup E temp_audio_path temp_output s3)))"

definition synthesize_speech ::
  "env \<Rightarrow> pystr \<Rightarrow> bytes \<Rightarrow> pystr \<Rightarrow> real \<Rightarrow> bool \<Rightarrow> state
   \<Rightarrow> (http_exception + response) \<times> state" where
  "synthesize_speech E text ref_audio ref_text speed remove_silence s =
     (case model s of
        None \<Rightarrow> (Inl (HTTPException 503 (str_lit ''Modelo no cargado'')), s)
      | Some m \<Rightarrow>
          if text = [] \<or> strip text = []
          then (Inl (HTTPException 400 (str_lit ''Texto requerido'')), s)
          else if ref_text = [] \<or> strip ref_text = []
          then (Inl (HTTPException 400
                  (str_lit ''Transcripci'' @ [243] @
                   str_lit ''n del audio de referencia requerida'')), s)
          else
            (case synthesize_body E m text ref_audio ref_text speed remove_silence s of
               (Inl e, s') \<Rightarrow>
                 (Inl (HTTPException 500
                    (str_lit ''Error en s'' @ [237] @ str_lit ''ntesis: '' @ str_exc e)), s')
             | (Inr result, s') \<Rightarrow> (Inr result, s')))"

subsection \<open>The test handler (lines 201-231)\<close>

text \<open>
  Between the two clock readings the handler does nothing; no statement of its
  \<^verbatim>\<open>try\<close> raises, so the 500 handler has no path leading to it.
\<close>

definition test_synthesis :: "env \<Rightarrow> state \<Rightarrow> (http_exception + response) \<times> state" where
  "test_synthesis E s =
     (case model s of
        None \<Rightarrow> (Inl (HTTPException 503 (str_lit ''Modelo no cargado'')), s)
      | Some m \<Rightarrow>
          (let test_text = str_lit ''Hola, esta es una prueba de s'' @ [237] @
                           str_lit ''ntesis de voz.'';
               (start_time, s1) = time_time E s;
               (now, s2) = time_time E s1;
               processing_time = now - start_time
           in (Inr [(''success'', JBool True),
                    (''message'', JStr (str_lit ''Modelo funcionando correctamente'')),
                    (''processing_time'', JFloat processing_time),
                    (''test_text'', JStr test_text),
                    (''model_ready'', JBool True)], s2)))"

subsection \<open>The routes\<close>

text \<open>
  Lines 109-115.  The route declares its parameters: \<^verbatim>\<open>text\<close>, \<^verbatim>\<open>ref_audio\<close> and
  \<^verbatim>\<open>ref_text\<close> are required (\<^verbatim>\<open>Form(...)\<close>, \<^verbatim>\<open>File(...)\<close>), \<^verbatim>\<open>speed\<close> is a
  \<^verbatim>\<open>float\<close> with default 1.0 and \<^verbatim>\<open>remove_silence\<close> a \<^verbatim>\<open>bool\<close> with default
  \<^verbatim>\<open>True\<close>.  The framework checks the multipart form against this declaration before it
  calls the handler: a form field that is absent or the empty string has no value; a
  required parameter without a value, or a value that does not parse, is answered with
  status 422 and the handler is not called.  The form as it arrives:
\<close>

record form =
  form_text :: "pystr option"
  form_ref_audio :: "bytes option"
  form_ref_text :: "pystr option"
  form_speed :: "pystr option"
  form_remove_silence :: "pystr option"

definition form_value :: "pystr option \<Rightarrow> pystr option" where
  "form_value v = (case v of None \<Rightarrow> None | Some t \<Rightarrow> if t = [] then None else Some t)"

text \<open>The arguments of the handler, or the names of the parameters at fault.\<close>

definition validate_form ::
  "env \<Rightarrow> form \<Rightarrow> string list + (pystr \<times> bytes \<times> pystr \<times> real \<times> bool)" where
  "validate_form E f =
     (let text = form_value (form_text f);
          ref_audio = form_ref_audio f;
          ref_text = form_value (form_ref_text f);
          speed = (case form_value (form_speed f) of
                     None \<Rightarrow> Some 1 | Some v \<Rightarrow> parse_float E v);
          remove_silence = (case form_value (form_remove_silence f) of
                              None \<Rightarrow> Some True | Some v \<Rightarrow> parse_bool E v);
          errors = (if text = None then [''text''] else []) @
                   (if ref_audio = None then [''ref_audio''] else []) @
                   (if ref_text = None then [''ref_text''] else []) @
                   (if speed = None then [''speed''] else []) @
                   (if remove_silence = None then [''remove_silence''] else [])
      in case text of
           None \<Rightarrow> Inl errors
         | Some t \<Rightarrow>
             (case ref_audio of
                None \<Rightarrow> Inl errors
              | Some a \<Rightarrow>
                  (case ref_text of
                     None \<Rightarrow> Inl errors
                   | Some rt \<Rightarrow>
                       (case speed of
                          None \<Rightarrow> Inl errors
                        | Some sp \<Rightarrow>
                            (case remove_silence of
                               None \<Rightarrow> Inl errors
                             | Some rs \<Rightarrow> Inr (t, a, rt, sp, rs))))))"

text \<open>
  The 422 answer; its detail names the parameters at fault (the framework sends one
  JSON entry for each of them).
\<close>

definition unprocessable :: "string list \<Rightarrow> http_exception" where
  "unprocessable errors = HTTPException 422 (str_lit (concat (map (\<lambda>n. n @ ''; '') errors)))"

text \<open>The route \<^verbatim>\<open>POST /synthesize\<close>: the check of the form, then the handler.\<close>

definition synthesize_route :: "env \<Rightarrow> form \<Rightarrow> state \<Rightarrow> (http_exception + response) \<times> state" where
  "synthesize_route E f s =
     (case validate_form E f of
        Inl errors \<Rightarrow> (Inl (unprocessable errors), s)
      | Inr (text, ref_audio, ref_text, speed, remove_silence) \<Rightarrow>
          synthesize_speech E text ref_audio ref_text speed remove_silence s)"

text \<open>The other three routes take no parameter.\<close>

datatype request =
    GetRoot
  | GetHealth
  | PostSynthesize form
  | PostTestSynthesis

fun dispatch :: "env \<Rightarrow> request \<Rightarrow> state \<Rightarrow> (http_exception + response) \<times> state" where
  "dispatch E GetRoot s = (case root s of (r, s') \<Rightarrow> (Inr r, s'))"
| "dispatch E GetHealth s = (case health_check E s of (r, s') \<Rightarrow> (Inr r, s'))"
| "dispatch E (PostSynthesize f) s = synthesize_route E f s"
| "dispatch E PostTestSynthesis s = test_synthesis E s"

text \<open>The process: the startup event, then the requests one after the other.\<close>

fun serve :: "env \<Rightarrow> request list \<Rightarrow> state \<Rightarrow> state" where
  "serve E [] s = s"
| "serve E (rq # rqs) s = serve E rqs (snd (dispatch E rq s))"

definition run_process :: "env \<Rightarrow> request list \<Rightarrow> (path \<rightharpoonup> bytes) \<Rightarrow> state" where
  "run_process E rqs fs = serve E rqs (snd (startup_event E (module_init fs)))"

subsection \<open>Concrete environments and inputs\<close>

text \<open>
  The theorems below are instantiated at these: a world where every call succeeds, and
  variations of it where the wall clock is set back during a request, where
  \<^verbatim>\<open>os.unlink\<close> is refused, where the scratch file cannot be written, where the
  package is missing and pip cannot install it, where the package is missing and pip
  installs it, where the constructor of the model fails, and where the import fails with
  an exception that is not an \<^verbatim>\<open>ImportError\<close>.
\<close>

definition env_ok :: env where
  "env_ok =
     \<lparr>clock = (\<lambda>n. 100 + real n),
      tmp_candidates = (\<lambda>n. if n = 0 then [''/tmp/tmpref''] else [''/tmp/tmpout'']),
      raises = (\<lambda>st. None),
      infer = (\<lambda>m p content ref_text gen_text speed remove_silence. Inr (Tensor [0, 1 / 2])),
      sf_write = (\<lambda>p w rate. Inr [0x52, 0x49, 0x46]),
      parse_float = (\<lambda>v. if v = str_lit ''1.0'' then Some 1 else None),
      parse_bool = (\<lambda>v. if v = str_lit ''true'' then Some True
                         else if v = str_lit ''false'' then Some False else None)\<rparr>"

definition env_clock_set_back :: env where
  "env_clock_set_back = env_ok\<lparr>clock := (\<lambda>n. if n = 2 then 10 else 5)\<rparr>"

definition env_unlink_refused :: env where
  "env_unlink_refused =
     env_ok\<lparr>raises := (\<lambda>st. case st of
                Unlink p \<Rightarrow> Some (OtherException (str_lit ''Permission denied''))
              | _ \<Rightarrow> None)\<rparr>"

definition env_disk_full :: env where
  "env_disk_full =
     env_ok\<lparr>raises := (\<lambda>st. case st of
                WriteFile p \<Rightarrow> Some (OtherException (str_lit ''No space left on device''))
              | _ \<Rightarrow> None)\<rparr>"

definition env_pip_fails :: env where
  "env_pip_fails =
     env_ok\<lparr>raises := (\<lambda>st. case st of
                ImportF5TTS k \<Rightarrow> Some (ImportError (str_lit ''No module named f5_tts''))
              | PipInstall \<Rightarrow> Some (OtherException (str_lit ''pip returned non-zero exit status 1''))
              | _ \<Rightarrow> None)\<rparr>"




text \<open>The state after a successful startup on an empty filesystem.\<close>

definition st_ready :: state where
  "st_ready =
     \<lparr>model = Some \<lparr>model_type = str_lit ''F5-TTS'', ckpt_file = None,
                     vocab_file = None, on_device = Cpu\<rparr>,
      vocoder = None, device = Some Cpu, files = Map.empty,
      clock_reads = 2, tmp_calls = 0,
      trace = [Ev_Time, Ev_Import, Ev_Construct, Ev_Time]\<rparr>"

definition hola_mundo :: pystr where
  "hola_mundo = str_lit ''Hola mundo''"

text \<open>The same text between a leading space and a trailing space and newline.\<close>

definition hola_padded :: pystr where
  "hola_padded = 32 # hola_mundo @ [32, 10]"

definition prueba :: pystr where
  "prueba = str_lit ''prueba''"

definition ref_wav :: bytes where
  "ref_wav = [0x52, 0x49, 0x46, 0x46]"

text \<open>
  The scenario of the specification as a form, the same form with an empty \<^verbatim>\<open>text\<close>, and
  with a \<^verbatim>\<open>text\<close> of a space, a tab and a newline.
\<close>

definition form_hola :: form where
  "form_hola =
     \<lparr>form_text = Some hola_mundo, form_ref_audio = Some ref_wav, form_ref_text = Some prueba,
      form_speed = Some (str_lit ''1.0''), form_remove_silence = Some (str_lit ''true'')\<rparr>"



text \<open>The response to the scenario of the specification, for a measured time \<open>t\<close>.\<close>

definition response_hola :: "real \<Rightarrow> response" where
  "response_hola t =
     [(''success'', JBool True),
      (''audio_base64'', JStr (str_lit ''UklG'')),
      (''format'', JStr (str_lit ''wav'')),
      (''sample_rate'', JInt 24000),
      (''processing_time'', JFloat t),
      (''text_length'', JInt 10),
      (''ref_text'', JStr prueba)]"

text \<open>An environment in which the calls of \<^verbatim>\<open>os.unlink\<close> raise as \<open>X\<close> says.\<close>

definition with_unlink_raising :: "(path \<Rightarrow> exc option) \<Rightarrow> env \<Rightarrow> env" where
  "with_unlink_raising X E =
     E\<lparr>raises := (\<lambda>st. case st of Unlink p \<Rightarrow> X p | _ \<Rightarrow> raises E st)\<rparr>"

section \<open>Properties\<close>

subsection \<open>The steps of the synthesis handler\<close>

text \<open>
  For each step: what its result says about the outside world, and what it does to the
  filesystem, the trace and the module globals.
\<close>

lemma dropWhile_all_Nil:
  assumes "\<forall>x\<in>set (dropWhile P t). P x"
  shows "dropWhile P t = []"
proof (rule ccontr)
  assume ne: "dropWhile P t \<noteq> []"
  then have "\<not> P (hd (dropWhile P t))" by (rule hd_dropWhile)
  moreover have "hd (dropWhile P t) \<in> set (dropWhile P t)" using ne by simp
  ultimately show False using assms by blast
qed

lemma strip_Nil_iff: "strip t = [] \<longleftrightarrow> list_all py_isspace t"
proof
  assume "strip t = []"
  then have "\<forall>x\<in>set (dropWhile py_isspace t). py_isspace x"
    by (simp add: strip_def)
  then have "dropWhile py_isspace t = []" by (rule dropWhile_all_Nil)
  then show "list_all py_isspace t" by (simp add: list_all_iff)
next
  assume "list_all py_isspace t"
  then have h: "dropWhile py_isspace t = []" by (simp add: list_all_iff)
  show "strip t = []" by (simp add: strip_def h)
qed

lemma NamedTemporaryFile_Inr:
  assumes "NamedTemporaryFile E s = (Inr p, s')"
  shows "files s p = None \<and> (\<exists>stem. p = stem @ ''.wav'') \<and>
         s' = emit (Ev_MkTemp p) (s\<lparr>tmp_calls := Suc (tmp_calls s), files := (files s)(p \<mapsto> [])\<rparr>)"
proof (cases "raises E (MkTemp (tmp_calls s))")
  case (Some e)
  with assms show ?thesis by (simp add: NamedTemporaryFile_def Let_def)
next
  case None
  show ?thesis
  proof (cases "find (\<lambda>p. files s p = None) (map (\<lambda>c. c @ ''.wav'') (tmp_candidates E (tmp_calls s)))")
    case None
    with \<open>raises E (MkTemp (tmp_calls s)) = None\<close> assms show ?thesis
      by (simp add: NamedTemporaryFile_def Let_def)
  next
    case (Some q)
    with \<open>raises E (MkTemp (tmp_calls s)) = None\<close> assms
    have eq: "q = p" "s' = emit (Ev_MkTemp p) (s\<lparr>tmp_calls := Suc (tmp_calls s), files := (files s)(p \<mapsto> [])\<rparr>)"
      by (auto simp: NamedTemporaryFile_def Let_def)
    from Some have "files s q = None" and "q \<in> set (map (\<lambda>c. c @ ''.wav'') (tmp_candidates E (tmp_calls s)))"
      by (auto simp: find_Some_iff)
    then have "files s q = None" and "\<exists>stem. q = stem @ ''.wav''"
      by auto
    with eq show ?thesis by simp
  qed
qed

lemma NamedTemporaryFile_Inl:
  assumes "NamedTemporaryFile E s = (Inl e, s')"
  shows "s' = s\<lparr>tmp_calls := Suc (tmp_calls s)\<rparr>"
  using assms
  by (cases "raises E (MkTemp (tmp_calls s))";
      cases "find (\<lambda>p. files s p = None) (map (\<lambda>c. c @ ''.wav'') (tmp_candidates E (tmp_calls s)))")
     (auto simp: NamedTemporaryFile_def Let_def)

lemma NamedTemporaryFile_Inr_fields:
  assumes "NamedTemporaryFile E s = (Inr p, s')"
  shows "files s p = None" and "\<exists>stem. p = stem @ ''.wav''"
    and "files s' = (files s)(p \<mapsto> [])" and "trace s' = trace s @ [Ev_MkTemp p]"
    and "model s' = model s" and "device s' = device s" and "vocoder s' = vocoder s"
    and "clock_reads s' = clock_reads s"
  using NamedTemporaryFile_Inr [OF assms] by (simp_all add: emit_def)

lemma NamedTemporaryFile_Inl_fields:
  assumes "NamedTemporaryFile E s = (Inl e, s')"
  shows "files s' = files s" and "trace s' = trace s"
    and "model s' = model s" and "device s' = device s" and "vocoder s' = vocoder s"
    and "clock_reads s' = clock_reads s"
  using NamedTemporaryFile_Inl [OF assms] by simp_all

lemma save_ref_audio_Inr:
  assumes "save_ref_audio E ref_audio s = (Inr p, s')"
  shows "files s p = None" and "raises E ReadUpload = None" and "raises E (WriteFile p) = None"
    and "files s' = (files s)(p \<mapsto> ref_audio)"
    and "trace s' = trace s @ [Ev_MkTemp p, Ev_ReadUpload, Ev_Write p]"
    and "model s' = model s" and "device s' = device s" and "vocoder s' = vocoder s"
    and "clock_reads s' = clock_reads s"
proof -
  obtain r s1 where nt: "NamedTemporaryFile E s = (r, s1)" by (cases "NamedTemporaryFile E s")
  from assms nt obtain q where r: "r = Inr q"
    by (cases r) (simp_all add: save_ref_audio_def)
  note f = NamedTemporaryFile_Inr_fields [OF nt [unfolded r]]
  from assms nt r have ru: "raises E ReadUpload = None"
    by (cases "raises E ReadUpload") (simp_all add: save_ref_audio_def Let_def)
  from assms nt r ru have wf: "raises E (WriteFile q) = None"
    by (cases "raises E (WriteFile q)") (simp_all add: save_ref_audio_def Let_def)
  from assms nt r ru wf have qp: "q = p"
    and s': "s' = (emit (Ev_Write q) (emit Ev_ReadUpload s1))
                    \<lparr>files := (files (emit (Ev_Write q) (emit Ev_ReadUpload s1)))(q \<mapsto> ref_audio)\<rparr>"
    by (auto simp: save_ref_audio_def Let_def)
  show "files s p = None" using f(1) qp by simp
  show "raises E ReadUpload = None" by (rule ru)
  show "raises E (WriteFile p) = None" using wf qp by simp
  show "files s' = (files s)(p \<mapsto> ref_audio)" using s' f(3) qp by (simp add: emit_def)
  show "trace s' = trace s @ [Ev_MkTemp p, Ev_ReadUpload, Ev_Write p]"
    using s' f(4) qp by (simp add: emit_def)
  show "model s' = model s" using s' f(5) by (simp add: emit_def)
  show "device s' = device s" using s' f(6) by (simp add: emit_def)
  show "vocoder s' = vocoder s" using s' f(7) by (simp add: emit_def)
  show "clock_reads s' = clock_reads s" using s' f(8) by (simp add: emit_def)
qed

lemma encode_wav_Inr:
  assumes "encode_wav E w s = (Inr bs, out, s')"
  shows "\<exists>q. out = Some q \<and> files s q = None \<and> (\<exists>stem. q = stem @ ''.wav'') \<and>
           sf_write E q w 24000 = Inr bs \<and>
           files s' = (files s)(q \<mapsto> bs) \<and>
           trace s' = trace s @ [Ev_MkTemp q, Ev_SfWrite q 24000, Ev_ReadBack q] \<and>
           clock_reads s' = clock_reads s"
proof -
  obtain r s1 where nt: "NamedTemporaryFile E s = (r, s1)" by (cases "NamedTemporaryFile E s")
  from assms nt obtain q where r: "r = Inr q"
    by (cases r) (simp_all add: encode_wav_def)
  note f = NamedTemporaryFile_Inr_fields [OF nt [unfolded r]]
  from assms nt r have im: "raises E ImportSoundfile = None"
    by (cases "raises E ImportSoundfile") (simp_all add: encode_wav_def)
  from assms nt r im obtain encoded where sf: "sf_write E q w 24000 = Inr encoded"
    by (cases "sf_write E q w 24000") (simp_all add: encode_wav_def Let_def)
  from assms nt r im sf have rb: "raises E (ReadBack q) = None"
    by (cases "raises E (ReadBack q)") (simp_all add: encode_wav_def Let_def)
  from assms nt r im sf rb have eqs: "encoded = bs" "out = Some q"
    and s': "s' = emit (Ev_ReadBack q)
                   ((emit (Ev_SfWrite q 24000) s1)
                      \<lparr>files := (files (emit (Ev_SfWrite q 24000) s1))(q \<mapsto> bs)\<rparr>)"
    by (auto simp: encode_wav_def Let_def)
  have "files s' = (files s)(q \<mapsto> bs)" using s' f(3) by (simp add: emit_def)
  moreover have "trace s' = trace s @ [Ev_MkTemp q, Ev_SfWrite q 24000, Ev_ReadBack q]"
    using s' f(4) by (simp add: emit_def)
  moreover have "clock_reads s' = clock_reads s" using s' f(8) by (simp add: emit_def)
  ultimately show ?thesis using eqs f(1,2) sf by simp
qed

lemma encode_wav_frame:
  assumes "encode_wav E w s = (r, out, s')"
  shows "model s' = model s" and "device s' = device s" and "vocoder s' = vocoder s"
    and "case out of None \<Rightarrow> files s' = files s
                   | Some q \<Rightarrow> files s q = None \<and> (\<exists>c. files s' = (files s)(q \<mapsto> c))"
proof -
  obtain r1 s1 where nt: "NamedTemporaryFile E s = (r1, s1)" by (cases "NamedTemporaryFile E s")
  have "model s' = model s \<and> device s' = device s \<and> vocoder s' = vocoder s \<and>
        (case out of None \<Rightarrow> files s' = files s
                   | Some q \<Rightarrow> files s q = None \<and> (\<exists>c. files s' = (files s)(q \<mapsto> c)))"
  proof (cases r1)
    case (Inl e)
    with assms nt NamedTemporaryFile_Inl_fields [of E s e s1] show ?thesis
      by (auto simp: encode_wav_def)
  next
    case (Inr q)
    note f = NamedTemporaryFile_Inr_fields [OF nt [unfolded Inr]]
    show ?thesis
    proof (cases "raises E ImportSoundfile")
      case (Some e)
      with assms nt Inr f show ?thesis by (auto simp: encode_wav_def)
    next
      case None
      note im = this
      show ?thesis
      proof (cases "sf_write E q w 24000")
        case (Inl e)
        with assms nt Inr f im show ?thesis by (auto simp: encode_wav_def Let_def emit_def)
      next
        case (Inr encoded)
        with assms nt \<open>r1 = Inr q\<close> f im show ?thesis
          by (cases "raises E (ReadBack q)") (auto simp: encode_wav_def Let_def emit_def)
      qed
    qed
  qed
  then show "model s' = model s" and "device s' = device s" and "vocoder s' = vocoder s"
    and "case out of None \<Rightarrow> files s' = files s
                   | Some q \<Rightarrow> files s q = None \<and> (\<exists>c. files s' = (files s)(q \<mapsto> c))"
    by simp_all
qed

lemma infer_and_encode_Inr:
  assumes "infer_and_encode E m text ref_text speed remove_silence start_time p s = (Inr resp, out, s')"
  shows "\<exists>a q bs. infer E m p (files s p) ref_text text speed remove_silence = Inr a \<and>
           sf_write E q (to_numpy a) 24000 = Inr bs \<and> (\<exists>stem. q = stem @ ''.wav'') \<and>
           out = Some q \<and>
           resp = [(''success'', JBool True),
                   (''audio_base64'', JStr (b64encode bs)),
                   (''format'', JStr (str_lit ''wav'')),
                   (''sample_rate'', JInt 24000),
                   (''processing_time'', JFloat (clock E (clock_reads s) - start_time)),
                   (''text_length'', JInt (int (length text))),
                   (''ref_text'', JStr ref_text)] \<and>
           trace s' = trace s @ [Ev_Infer p ref_text text, Ev_MkTemp q, Ev_SfWrite q 24000,
                                 Ev_ReadBack q, Ev_Time]"
proof -
  let ?s1 = "emit (Ev_Infer p ref_text text) s"
  from assms obtain a where inf: "infer E m p (files s p) ref_text text speed remove_silence = Inr a"
    by (cases "infer E m p (files s p) ref_text text speed remove_silence")
       (simp_all add: infer_and_encode_def Let_def)
  obtain r out2 s2 where ew: "encode_wav E (to_numpy a) ?s1 = (r, out2, s2)"
    by (cases "encode_wav E (to_numpy a) ?s1") auto
  from assms inf ew obtain bs where r: "r = Inr bs"
    by (cases r) (simp_all add: infer_and_encode_def Let_def)
  from encode_wav_Inr [OF ew [unfolded r]] obtain q where
    q: "out2 = Some q" "\<exists>stem. q = stem @ ''.wav''" "sf_write E q (to_numpy a) 24000 = Inr bs"
      "trace s2 = trace ?s1 @ [Ev_MkTemp q, Ev_SfWrite q 24000, Ev_ReadBack q]"
      "clock_reads s2 = clock_reads ?s1"
    by blast
  from assms inf ew r have res: "out = out2" "s' = snd (time_time E s2)"
    "resp = [(''success'', JBool True),
                   (''audio_base64'', JStr (b64encode bs)),
                   (''format'', JStr (str_lit ''wav'')),
                   (''sample_rate'', JInt 24000),
                   (''processing_time'', JFloat (clock E (clock_reads s2) - start_time)),
                   (''text_length'', JInt (int (length text))),
                   (''ref_text'', JStr ref_text)]"
    by (auto simp: infer_and_encode_def Let_def time_time_def)
  have "trace s' = trace s @ [Ev_Infer p ref_text text, Ev_MkTemp q, Ev_SfWrite q 24000,
                                 Ev_ReadBack q, Ev_Time]"
    using res(2) q(4) by (simp add: time_time_def emit_def)
  moreover have "clock_reads s2 = clock_reads s" using q(5) by (simp add: emit_def)
  ultimately show ?thesis using inf q res by simp
qed

lemma infer_and_encode_frame:
  assumes "infer_and_encode E m text ref_text speed remove_silence start_time p s = (r, out, s')"
  shows "model s' = model s" and "device s' = device s" and "vocoder s' = vocoder s"
    and "case out of None \<Rightarrow> files s' = files s
                   | Some q \<Rightarrow> files s q = None \<and> (\<exists>c. files s' = (files s)(q \<mapsto> c))"
proof -
  let ?s1 = "emit (Ev_Infer p ref_text text) s"
  let ?F = "\<lambda>out s'. case out of None \<Rightarrow> files s' = files s
                   | Some q \<Rightarrow> files s q = None \<and> (\<exists>c. files s' = (files s)(q \<mapsto> c))"
  have "model s' = model s \<and> device s' = device s \<and> vocoder s' = vocoder s \<and> ?F out s'"
  proof (cases "infer E m p (files s p) ref_text text speed remove_silence")
    case (Inl e)
    with assms show ?thesis by (auto simp: infer_and_encode_def Let_def emit_def)
  next
    case (Inr a)
    obtain r2 out2 s2 where ew: "encode_wav E (to_numpy a) ?s1 = (r2, out2, s2)"
      by (cases "encode_wav E (to_numpy a) ?s1") auto
    note f = encode_wav_frame [OF ew]
    have g: "model s2 = model s" "device s2 = device s" "vocoder s2 = vocoder s" "?F out2 s2"
      using f by (auto simp: emit_def split: option.splits)
    from assms Inr ew have "out = out2" and "s' = s2 \<or> s' = snd (time_time E s2)"
      by (cases r2; auto simp: infer_and_encode_def Let_def time_time_def)+
    then show ?thesis using g
      by (auto simp: time_time_def emit_def split: option.splits)
  qed
  then show "model s' = model s" and "device s' = device s" and "vocoder s' = vocoder s"
    and "?F out s'"
    by simp_all
qed

lemma os_unlink_frame:
  assumes "os_unlink E p s = (r, s')"
  shows "model s' = model s" and "device s' = device s" and "vocoder s' = vocoder s"
    and "trace s' = trace s @ [Ev_Unlink p]"
  using assms
  by (cases "raises E (Unlink p)"; cases "files s p"; auto simp: os_unlink_def Let_def emit_def)+

lemma os_unlink_ok:
  assumes "raises E (Unlink p) = None" and "files s p = Some c"
  shows "fst (os_unlink E p s) = None" and "files (snd (os_unlink E p s)) = (files s)(p := None)"
  using assms by (simp_all add: os_unlink_def Let_def emit_def)

lemma cleanup_frame:
  shows "model (cleanup E p out s) = model s" and "device (cleanup E p out s) = device s"
    and "vocoder (cleanup E p out s) = vocoder s"
    and "\<exists>tl. trace (cleanup E p out s) = trace s @ tl \<and>
              (tl = [Ev_Unlink p] \<or> (\<exists>q. out = Some q \<and> tl = [Ev_Unlink p, Ev_Unlink q]))"
proof -
  obtain r s1 where u1: "os_unlink E p s = (r, s1)" by (cases "os_unlink E p s")
  note f1 = os_unlink_frame [OF u1]
  have "model (cleanup E p out s) = model s \<and> device (cleanup E p out s) = device s \<and>
        vocoder (cleanup E p out s) = vocoder s \<and>
        (\<exists>tl. trace (cleanup E p out s) = trace s @ tl \<and>
              (tl = [Ev_Unlink p] \<or> (\<exists>q. out = Some q \<and> tl = [Ev_Unlink p, Ev_Unlink q])))"
  proof (cases r)
    case (Some e)
    with u1 f1 show ?thesis by (simp add: cleanup_def)
  next
    case None
    show ?thesis
    proof (cases out)
      case None
      with u1 \<open>r = None\<close> f1 show ?thesis by (simp add: cleanup_def)
    next
      case (Some q)
      obtain r2 s2 where u2: "os_unlink E q s1 = (r2, s2)" by (cases "os_unlink E q s1")
      note f2 = os_unlink_frame [OF u2]
      from u1 u2 \<open>r = None\<close> Some have "cleanup E p out s = s2" by (simp add: cleanup_def)
      with f1 f2 Some show ?thesis by simp
    qed
  qed
  then show "model (cleanup E p out s) = model s" and "device (cleanup E p out s) = device s"
    and "vocoder (cleanup E p out s) = vocoder s"
    and "\<exists>tl. trace (cleanup E p out s) = trace s @ tl \<and>
              (tl = [Ev_Unlink p] \<or> (\<exists>q. out = Some q \<and> tl = [Ev_Unlink p, Ev_Unlink q]))"
    by simp_all
qed

lemma cleanup_removes:
  assumes nf: "\<forall>x. raises E (Unlink x) = None" and p: "files s p = Some c"
    and out: "case out of None \<Rightarrow> True | Some q \<Rightarrow> q \<noteq> p \<and> files s q \<noteq> None"
  shows "files (cleanup E p out s) =
           (case out of None \<Rightarrow> (files s)(p := None) | Some q \<Rightarrow> (files s)(p := None, q := None))"
proof -
  obtain r s1 where u1: "os_unlink E p s = (r, s1)" by (cases "os_unlink E p s")
  from os_unlink_ok [OF nf [rule_format] p] u1
  have r: "r = None" and s1: "files s1 = (files s)(p := None)" by simp_all
  show ?thesis
  proof (cases out)
    case None
    with u1 r s1 show ?thesis by (simp add: cleanup_def)
  next
    case (Some q)
    with out s1 obtain d where q: "files s1 q = Some d" by auto
    from os_unlink_ok [OF nf [rule_format] q]
    have "files (snd (os_unlink E q s1)) = (files s1)(q := None)" by simp
    with u1 r s1 Some show ?thesis by (simp add: cleanup_def)
  qed
qed

lemma time_time_fields:
  shows "fst (time_time E s) = clock E (clock_reads s)"
    and "model (snd (time_time E s)) = model s" and "device (snd (time_time E s)) = device s"
    and "vocoder (snd (time_time E s)) = vocoder s" and "files (snd (time_time E s)) = files s"
    and "trace (snd (time_time E s)) = trace s @ [Ev_Time]"
    and "clock_reads (snd (time_time E s)) = Suc (clock_reads s)"
  by (simp_all add: time_time_def emit_def)

lemma save_ref_audio_Inl:
  assumes "save_ref_audio E ref_audio s = (Inl e, s')"
  shows "model s' = model s" and "device s' = device s" and "vocoder s' = vocoder s"
    and "raises E ReadUpload = None \<Longrightarrow> \<forall>p. raises E (WriteFile p) = None \<Longrightarrow> files s' = files s"
proof -
  obtain r s1 where nt: "NamedTemporaryFile E s = (r, s1)" by (cases "NamedTemporaryFile E s")
  have "model s' = model s \<and> device s' = device s \<and> vocoder s' = vocoder s \<and>
        (raises E ReadUpload = None \<longrightarrow> (\<forall>p. raises E (WriteFile p) = None) \<longrightarrow> files s' = files s)"
  proof (cases r)
    case (Inl e1)
    with assms nt NamedTemporaryFile_Inl_fields [of E s e1 s1] show ?thesis
      by (auto simp: save_ref_audio_def)
  next
    case (Inr q)
    note f = NamedTemporaryFile_Inr_fields [OF nt [unfolded Inr]]
    show ?thesis
    proof (cases "raises E ReadUpload")
      case (Some e1)
      with assms nt Inr f show ?thesis by (auto simp: save_ref_audio_def Let_def emit_def)
    next
      case None
      with assms nt Inr f show ?thesis
        by (cases "raises E (WriteFile q)") (auto simp: save_ref_audio_def Let_def emit_def)
    qed
  qed
  then show "model s' = model s" and "device s' = device s" and "vocoder s' = vocoder s"
    and "raises E ReadUpload = None \<Longrightarrow> \<forall>p. raises E (WriteFile p) = None \<Longrightarrow> files s' = files s"
    by simp_all
qed

lemma synthesize_body_frame:
  assumes "synthesize_body E m text ref_audio ref_text speed remove_silence s = (r, s')"
  shows "model s' = model s" and "device s' = device s" and "vocoder s' = vocoder s"
proof -
  let ?s1 = "snd (time_time E s)"
  let ?t = "fst (time_time E s)"
  obtain r1 s2 where sv: "save_ref_audio E ref_audio ?s1 = (r1, s2)"
    by (cases "save_ref_audio E ref_audio ?s1")
  have "model s' = model s \<and> device s' = device s \<and> vocoder s' = vocoder s"
  proof (cases r1)
    case (Inl e)
    with assms sv have "s' = s2" by (simp add: synthesize_body_def split_beta)
    with save_ref_audio_Inl(1-3) [OF sv [unfolded Inl]] show ?thesis
      by (simp add: time_time_fields)
  next
    case (Inr p)
    obtain r2 out s3 where ie: "infer_and_encode E m text ref_text speed remove_silence ?t p s2 = (r2, out, s3)"
      by (cases "infer_and_encode E m text ref_text speed remove_silence ?t p s2") auto
    from assms sv Inr ie have "s' = cleanup E p out s3"
      by (simp add: synthesize_body_def split_beta)
    with save_ref_audio_Inr(6-8) [OF sv [unfolded Inr]] infer_and_encode_frame(1-3) [OF ie]
    show ?thesis by (simp add: cleanup_frame time_time_fields)
  qed
  then show "model s' = model s" and "device s' = device s" and "vocoder s' = vocoder s"
    by simp_all
qed

lemma synthesize_body_files:
  assumes body: "synthesize_body E m text ref_audio ref_text speed remove_silence s = (r, s')"
    and ru: "raises E ReadUpload = None" and wf: "\<forall>p. raises E (WriteFile p) = None"
    and ul: "\<forall>p. raises E (Unlink p) = None"
  shows "files s' = files s"
proof -
  let ?s1 = "snd (time_time E s)"
  let ?t = "fst (time_time E s)"
  have f1: "files ?s1 = files s" by (simp add: time_time_fields)
  obtain r1 s2 where sv: "save_ref_audio E ref_audio ?s1 = (r1, s2)"
    by (cases "save_ref_audio E ref_audio ?s1")
  show ?thesis
  proof (cases r1)
    case (Inl e)
    with body sv have "s' = s2" by (simp add: synthesize_body_def split_beta)
    with save_ref_audio_Inl(4) [OF sv [unfolded Inl] ru wf] f1 show ?thesis by simp
  next
    case (Inr p)
    note sr = save_ref_audio_Inr [OF sv [unfolded Inr]]
    have pn: "files s p = None" and f2: "files s2 = (files s)(p \<mapsto> ref_audio)"
      using sr(1,4) f1 by simp_all
    obtain r2 out s3 where ie: "infer_and_encode E m text ref_text speed remove_silence ?t p s2 = (r2, out, s3)"
      by (cases "infer_and_encode E m text ref_text speed remove_silence ?t p s2") auto
    note fr = infer_and_encode_frame(4) [OF ie]
    from body sv Inr ie have s': "s' = cleanup E p out s3"
      by (simp add: synthesize_body_def split_beta)
    show ?thesis
    proof (cases out)
      case None
      with fr f2 have f3: "files s3 = (files s)(p \<mapsto> ref_audio)" by simp
      then have "files s3 p = Some ref_audio" by simp
      from cleanup_removes [OF ul this, of None] None
      have "files (cleanup E p out s3) = (files s3)(p := None)" by simp
      with f3 pn s' show ?thesis by (simp add: fun_upd_idem)
    next
      case (Some q)
      with fr f2 obtain c where qn: "files s2 q = None" and f3: "files s3 = (files s)(p \<mapsto> ref_audio, q \<mapsto> c)"
        by auto
      from qn f2 have qp: "q \<noteq> p" by auto
      with qn f2 have qn0: "files s q = None" by simp
      have p3: "files s3 p = Some ref_audio" using f3 qp by simp
      have "case Some q of None \<Rightarrow> True | Some q \<Rightarrow> q \<noteq> p \<and> files s3 q \<noteq> None"
        using qp f3 by simp
      from cleanup_removes [OF ul p3 this] Some
      have "files (cleanup E p out s3) = (files s3)(p := None, q := None)" by simp
      also have "\<dots> = files s" using f3 pn qn0 qp by (auto simp: fun_eq_iff)
      finally show ?thesis using s' by simp
    qed
  qed
qed

lemma synthesize_body_Inr:
  assumes "synthesize_body E m text ref_audio ref_text speed remove_silence s = (Inr resp, s')"
  shows "\<exists>p q a bs tl.
           infer E m p (Some ref_audio) ref_text text speed remove_silence = Inr a \<and>
           sf_write E q (to_numpy a) 24000 = Inr bs \<and> (\<exists>stem. q = stem @ ''.wav'') \<and>
           resp = [(''success'', JBool True),
                   (''audio_base64'', JStr (b64encode bs)),
                   (''format'', JStr (str_lit ''wav'')),
                   (''sample_rate'', JInt 24000),
                   (''processing_time'',
                      JFloat (clock E (Suc (clock_reads s)) - clock E (clock_reads s))),
                   (''text_length'', JInt (int (length text))),
                   (''ref_text'', JStr ref_text)] \<and>
           trace s' = trace s @ [Ev_Time, Ev_MkTemp p, Ev_ReadUpload, Ev_Write p,
                                 Ev_Infer p ref_text text, Ev_MkTemp q, Ev_SfWrite q 24000,
                                 Ev_ReadBack q, Ev_Time] @ tl \<and>
           (tl = [Ev_Unlink p] \<or> tl = [Ev_Unlink p, Ev_Unlink q])"
proof -
  let ?s1 = "snd (time_time E s)"
  let ?t = "fst (time_time E s)"
  obtain r1 s2 where sv: "save_ref_audio E ref_audio ?s1 = (r1, s2)"
    by (cases "save_ref_audio E ref_audio ?s1")
  from assms sv obtain p where r1: "r1 = Inr p"
    by (cases r1) (simp_all add: synthesize_body_def split_beta)
  note sr = save_ref_audio_Inr [OF sv [unfolded r1]]
  obtain r2 out s3 where ie: "infer_and_encode E m text ref_text speed remove_silence ?t p s2 = (r2, out, s3)"
    by (cases "infer_and_encode E m text ref_text speed remove_silence ?t p s2") auto
  from assms sv r1 ie have r2: "r2 = Inr resp" and s': "s' = cleanup E p out s3"
    by (simp_all add: synthesize_body_def split_beta)
  from infer_and_encode_Inr [OF ie [unfolded r2]] obtain a q bs where
    a: "infer E m p (files s2 p) ref_text text speed remove_silence = Inr a"
    and q: "sf_write E q (to_numpy a) 24000 = Inr bs" "\<exists>stem. q = stem @ ''.wav''" "out = Some q"
    and resp: "resp = [(''success'', JBool True),
                   (''audio_base64'', JStr (b64encode bs)),
                   (''format'', JStr (str_lit ''wav'')),
                   (''sample_rate'', JInt 24000),
                   (''processing_time'', JFloat (clock E (clock_reads s2) - ?t)),
                   (''text_length'', JInt (int (length text))),
                   (''ref_text'', JStr ref_text)]"
    and tr3: "trace s3 = trace s2 @ [Ev_Infer p ref_text text, Ev_MkTemp q, Ev_SfWrite q 24000,
                                 Ev_ReadBack q, Ev_Time]"
    by blast
  from cleanup_frame(4) [of E p out s3] q(3) obtain tl where
    tl: "trace s' = trace s3 @ tl" "tl = [Ev_Unlink p] \<or> tl = [Ev_Unlink p, Ev_Unlink q]"
    unfolding s' by auto
  have c2: "clock_reads s2 = Suc (clock_reads s)" using sr(9) by (simp add: time_time_fields)
  have t: "?t = clock E (clock_reads s)" by (simp add: time_time_fields)
  have f2: "files s2 p = Some ref_audio" using sr(4) by simp
  have tr: "trace s' = trace s @ [Ev_Time, Ev_MkTemp p, Ev_ReadUpload, Ev_Write p,
                                 Ev_Infer p ref_text text, Ev_MkTemp q, Ev_SfWrite q 24000,
                                 Ev_ReadBack q, Ev_Time] @ tl"
    using tl(1) tr3 sr(5) by (simp add: time_time_fields)
  from a f2 have inf: "infer E m p (Some ref_audio) ref_text text speed remove_silence = Inr a"
    by simp
  have resp': "resp = [(''success'', JBool True),
                   (''audio_base64'', JStr (b64encode bs)),
                   (''format'', JStr (str_lit ''wav'')),
                   (''sample_rate'', JInt 24000),
                   (''processing_time'',
                      JFloat (clock E (Suc (clock_reads s)) - clock E (clock_reads s))),
                   (''text_length'', JInt (int (length text))),
                   (''ref_text'', JStr ref_text)]"
    using resp c2 t by simp
  from inf q(1,2) resp' tr tl(2) show ?thesis
    by - (rule exI [of _ p], rule exI [of _ q], rule exI [of _ a], rule exI [of _ bs],
          rule exI [of _ tl], intro conjI, assumption+)
qed

lemma synthesize_speech_cases:
  obtains (unavailable) "model s = None"
      "synthesize_speech E text ref_audio ref_text speed remove_silence s =
         (Inl (HTTPException 503 (str_lit ''Modelo no cargado'')), s)"
  | (no_text) m where "model s = Some m" "list_all py_isspace text"
      "synthesize_speech E text ref_audio ref_text speed remove_silence s =
         (Inl (HTTPException 400 (str_lit ''Texto requerido'')), s)"
  | (no_ref_text) m where "model s = Some m" "\<not> list_all py_isspace text" "list_all py_isspace ref_text"
      "synthesize_speech E text ref_audio ref_text speed remove_silence s =
         (Inl (HTTPException 400 (str_lit ''Transcripci'' @ [243] @
                   str_lit ''n del audio de referencia requerida'')), s)"
  | (failed) m e where "model s = Some m" "\<not> list_all py_isspace text" "\<not> list_all py_isspace ref_text"
      "fst (synthesize_body E m text ref_audio ref_text speed remove_silence s) = Inl e"
      "synthesize_speech E text ref_audio ref_text speed remove_silence s =
         (Inl (HTTPException 500
                    (str_lit ''Error en s'' @ [237] @ str_lit ''ntesis: '' @ str_exc e)),
          snd (synthesize_body E m text ref_audio ref_text speed remove_silence s))"
  | (succeeded) m resp where "model s = Some m" "\<not> list_all py_isspace text" "\<not> list_all py_isspace ref_text"
      "synthesize_speech E text ref_audio ref_text speed remove_silence s =
         (Inr resp, snd (synthesize_body E m text ref_audio ref_text speed remove_silence s))"
      "synthesize_body E m text ref_audio ref_text speed remove_silence s =
         (Inr resp, snd (synthesize_body E m text ref_audio ref_text speed remove_silence s))"
proof (cases "model s")
  case None
  then show ?thesis using unavailable by (simp add: synthesize_speech_def)
next
  case (Some m)
  have nil: "t = [] \<or> strip t = [] \<longleftrightarrow> list_all py_isspace t" for t
    using strip_Nil_iff [of t] by (cases t) auto
  show ?thesis
  proof (cases "list_all py_isspace text")
    case True
    with Some show ?thesis using no_text by (simp add: synthesize_speech_def nil)
  next
    case False
    note t = this
    show ?thesis
    proof (cases "list_all py_isspace ref_text")
      case True
      with Some t show ?thesis using no_ref_text by (simp add: synthesize_speech_def nil)
    next
      case False
      obtain r s' where b: "synthesize_body E m text ref_audio ref_text speed remove_silence s = (r, s')"
        by (cases "synthesize_body E m text ref_audio ref_text speed remove_silence s")
      show ?thesis
      proof (cases r)
        case (Inl e)
        with Some t False b show ?thesis using failed [of m e]
          by (simp add: synthesize_speech_def nil)
      next
        case (Inr resp)
        with Some t False b show ?thesis using succeeded [of m resp]
          by (simp add: synthesize_speech_def nil)
      qed
    qed
  qed
qed

subsection \<open>The concrete inputs\<close>

lemma st_ready_startup: "snd (startup_event env_ok (module_init Map.empty)) = st_ready"
  by (simp add: startup_event_def load_model_def load_model_body_def import_f5_tts_def
      install_f5_tts_def time_time_def emit_def env_ok_def module_init_def st_ready_def Let_def)

lemma hola_prueba_not_blank:
  "\<not> list_all py_isspace hola_mundo" "\<not> list_all py_isspace prueba"
  by (simp_all add: hola_mundo_def prueba_def str_lit_def py_isspace_def)

lemmas synthesize_unfold =
  synthesize_speech_def synthesize_body_def save_ref_audio_def infer_and_encode_def
  encode_wav_def NamedTemporaryFile_def cleanup_def os_unlink_def time_time_def emit_def
  Let_def strip_Nil_iff hola_prueba_not_blank

lemma hola_values:
  "hola_mundo \<noteq> []" "prueba \<noteq> []" "length hola_mundo = 10"
  "b64encode [0x52, 0x49, 0x46] = str_lit ''UklG''"
  by (simp_all add: hola_mundo_def prueba_def str_lit_def b64_digit_def)

lemma synthesize_hola_ok:
  "fst (synthesize_speech env_ok hola_mundo ref_wav prueba 1 True st_ready) = Inr (response_hola 1)"
  by (simp add: synthesize_unfold hola_values env_ok_def st_ready_def response_hola_def
      b64_digit_def str_lit_def)

subsection \<open>Rejections of the synthesis request\<close>













text \<open>
  Claim C10.  A request that \<^verbatim>\<open>synthesize_speech\<close> rejects with status 503 or 400 has
  no effect: the state after the call is the state before it, so no scratch file has been
  created, the upload has not been read and the model has not been called (each of these
  would have extended the trace or the filesystem).
\<close>

theorem synthesize_rejection_changes_nothing:
  assumes "fst (synthesize_speech E text ref_audio ref_text speed remove_silence s) =
             Inl (HTTPException code msg)"
    and "code = 503 \<or> code = 400"
  shows "snd (synthesize_speech E text ref_audio ref_text speed remove_silence s) = s"
  using assms
  by (cases rule: synthesize_speech_cases [of s E "text" ref_audio ref_text speed remove_silence])
     auto

theorem synthesize_rejection_changes_nothing_witness:
  "fst (synthesize_speech env_ok [] ref_wav prueba 1 True st_ready) =
     Inl (HTTPException 400 (str_lit ''Texto requerido'')) \<and>
   ((400::nat) = 503 \<or> (400::nat) = 400) \<and>
   snd (synthesize_speech env_ok [] ref_wav prueba 1 True st_ready) = st_ready"
proof -
  have h: "fst (synthesize_speech env_ok [] ref_wav prueba 1 True st_ready) =
     Inl (HTTPException 400 (str_lit ''Texto requerido''))"
    by (simp add: synthesize_speech_def st_ready_def)
  have c: "(400::nat) = 503 \<or> (400::nat) = 400" by simp
  show ?thesis
    using h c synthesize_rejection_changes_nothing [OF h c] by simp
qed

subsection \<open>Base64\<close>

text \<open>Decoding what \<open>b64encode\<close> produced gives the bytes back.\<close>

lemma b64_digit_value:
  assumes "d < 64"
  shows "b64_value (b64_digit d) = Some d" and "b64_digit d \<noteq> 61"
  using assms by (auto simp: b64_value_def b64_digit_def Let_def)

lemma six_bits:
  fixes A B C :: nat
  assumes "A < 256" "B < 256" "C < 256"
  shows "A div 4 < 64" "A mod 4 * 16 < 64" "A mod 4 * 16 + B div 16 < 64"
    "B mod 16 * 4 < 64" "B mod 16 * 4 + C div 64 < 64" "C mod 64 < 64"
proof -
  have a: "A mod 4 < 4" and b: "B mod 16 < 16" by simp_all
  have b': "B div 16 < 16" and c': "C div 64 < 4" using assms by simp_all
  show "A div 4 < 64" using assms by simp
  show "A mod 4 * 16 < 64" using a by simp
  show "A mod 4 * 16 + B div 16 < 64" using a b' by linarith
  show "B mod 16 * 4 < 64" using b by simp
  show "B mod 16 * 4 + C div 64 < 64" using b c' by linarith
  show "C mod 64 < 64" by simp
qed

lemma eight_bits:
  fixes A B C :: nat
  assumes "B < 256" "C < 256"
  shows "A div 4 * 4 + (A mod 4 * 16) div 16 = A"
    "A div 4 * 4 + (A mod 4 * 16 + B div 16) div 16 = A"
    "(A mod 4 * 16 + B div 16) mod 16 * 16 + (B mod 16 * 4) div 4 = B"
    "(A mod 4 * 16 + B div 16) mod 16 * 16 + (B mod 16 * 4 + C div 64) div 4 = B"
    "(B mod 16 * 4 + C div 64) mod 4 * 64 + C mod 64 = C"
  using assms by simp_all

lemma unat_byte: "unat a < 256" for a :: "8 word"
  using unsigned_less [of a, where ?'a = nat] by simp

lemma b64decode_groups:
  assumes "d1 < 64" "d2 < 64"
  shows "b64decode [b64_digit d1, b64_digit d2, 61, 61] = Some [of_nat (d1 * 4 + d2 div 16)]"
    and "d3 < 64 \<Longrightarrow>
         b64decode [b64_digit d1, b64_digit d2, b64_digit d3, 61] =
           Some [of_nat (d1 * 4 + d2 div 16), of_nat (d2 mod 16 * 16 + d3 div 4)]"
    and "d3 < 64 \<Longrightarrow> d4 < 64 \<Longrightarrow> b64decode rest = Some bs \<Longrightarrow>
         b64decode (b64_digit d1 # b64_digit d2 # b64_digit d3 # b64_digit d4 # rest) =
           Some (of_nat (d1 * 4 + d2 div 16) # of_nat (d2 mod 16 * 16 + d3 div 4) #
                 of_nat (d3 mod 4 * 64 + d4) # bs)"
  using assms by (simp_all add: b64_digit_value del: of_nat_add of_nat_mult)

lemma b64decode_b64encode: "b64decode (b64encode bs) = Some bs"
proof (induction bs rule: b64encode.induct)
  case 1
  show ?case by simp
next
  case (2 a)
  define A where "A = unat a"
  have A: "A < 256" unfolding A_def by (rule unat_byte)
  note s = six_bits [OF A A A]
  have "b64decode (b64encode [a]) = Some [of_nat (A div 4 * 4 + (A mod 4 * 16) div 16)]"
    unfolding b64encode.simps Let_def A_def [symmetric]
    by (rule b64decode_groups(1) [OF s(1,2)])
  also have "A div 4 * 4 + (A mod 4 * 16) div 16 = A" by (rule eight_bits(1) [OF A A])
  finally show ?case by (simp add: A_def)
next
  case (3 a b)
  define A B where "A = unat a" and "B = unat b"
  have A: "A < 256" and B: "B < 256" unfolding A_def B_def by (rule unat_byte)+
  note s = six_bits [OF A B B]
  have "b64decode (b64encode [a, b]) =
          Some [of_nat (A div 4 * 4 + (A mod 4 * 16 + B div 16) div 16),
                of_nat ((A mod 4 * 16 + B div 16) mod 16 * 16 + (B mod 16 * 4) div 4)]"
    unfolding b64encode.simps Let_def A_def [symmetric] B_def [symmetric]
    by (rule b64decode_groups(2) [OF s(1,3,4)])
  also have "A div 4 * 4 + (A mod 4 * 16 + B div 16) div 16 = A" by (rule eight_bits(2) [OF B B])
  also have "(A mod 4 * 16 + B div 16) mod 16 * 16 + (B mod 16 * 4) div 4 = B"
    by (rule eight_bits(3) [OF B B])
  finally show ?case by (simp add: A_def B_def)
next
  case (4 a b c rest)
  define A B C where "A = unat a" and "B = unat b" and "C = unat c"
  have A: "A < 256" and B: "B < 256" and C: "C < 256"
    unfolding A_def B_def C_def by (rule unat_byte)+
  note s = six_bits [OF A B C]
  have "b64decode (b64encode (a # b # c # rest)) =
          Some (of_nat (A div 4 * 4 + (A mod 4 * 16 + B div 16) div 16) #
                of_nat ((A mod 4 * 16 + B div 16) mod 16 * 16 + (B mod 16 * 4 + C div 64) div 4) #
                of_nat ((B mod 16 * 4 + C div 64) mod 4 * 64 + C mod 64) # rest)"
    unfolding b64encode.simps Let_def A_def [symmetric] B_def [symmetric] C_def [symmetric]
      append.simps
    by (rule b64decode_groups(3) [OF s(1,3,5,6) "4.IH" [OF refl refl refl]])
  also have "A div 4 * 4 + (A mod 4 * 16 + B div 16) div 16 = A" by (rule eight_bits(2) [OF B C])
  also have "(A mod 4 * 16 + B div 16) mod 16 * 16 + (B mod 16 * 4 + C div 64) div 4 = B"
    by (rule eight_bits(4) [OF B C])
  also have "(B mod 16 * 4 + C div 64) mod 4 * 64 + C mod 64 = C" by (rule eight_bits(5) [OF B C])
  finally show ?case by (simp add: A_def B_def C_def)
qed

subsection \<open>Successful synthesis\<close>

lemma synthesize_padded_ok:
  "fst (synthesize_speech env_ok hola_padded ref_wav prueba 1 True st_ready) =
     Inr [(''success'', JBool True),
          (''audio_base64'', JStr (str_lit ''UklG'')),
          (''format'', JStr (str_lit ''wav'')),
          (''sample_rate'', JInt 24000),
          (''processing_time'', JFloat 1),
          (''text_length'', JInt 13),
          (''ref_text'', JStr prueba)]"
proof -
  have "\<not> list_all py_isspace hola_padded"
    using hola_prueba_not_blank(1) by (simp add: hola_padded_def)
  moreover have "hola_padded \<noteq> []" "length hola_padded = 13"
    by (simp_all add: hola_padded_def hola_values)
  ultimately show ?thesis
    by (simp add: synthesize_unfold hola_values env_ok_def st_ready_def
        b64_digit_def str_lit_def)
qed

lemma synthesize_hola_clock_set_back:
  "fst (synthesize_speech env_clock_set_back hola_mundo ref_wav prueba 1 True st_ready) =
     Inr (response_hola (- 5))"
  by (simp add: synthesize_unfold hola_values env_ok_def env_clock_set_back_def st_ready_def
      response_hola_def b64_digit_def str_lit_def)

lemma synthesize_success_response:
  assumes "fst (synthesize_speech E text ref_audio ref_text speed remove_silence s) = Inr resp"
  shows "\<exists>m p q a bs tl.
           model s = Some m \<and>
           infer E m p (Some ref_audio) ref_text text speed remove_silence = Inr a \<and>
           sf_write E q (to_numpy a) 24000 = Inr bs \<and> (\<exists>stem. q = stem @ ''.wav'') \<and>
           resp = [(''success'', JBool True),
                   (''audio_base64'', JStr (b64encode bs)),
                   (''format'', JStr (str_lit ''wav'')),
                   (''sample_rate'', JInt 24000),
                   (''processing_time'',
                      JFloat (clock E (Suc (clock_reads s)) - clock E (clock_reads s))),
                   (''text_length'', JInt (int (length text))),
                   (''ref_text'', JStr ref_text)] \<and>
           trace (snd (synthesize_speech E text ref_audio ref_text speed remove_silence s)) =
             trace s @ [Ev_Time, Ev_MkTemp p, Ev_ReadUpload, Ev_Write p,
                        Ev_Infer p ref_text text, Ev_MkTemp q, Ev_SfWrite q 24000,
                        Ev_ReadBack q, Ev_Time] @ tl \<and>
           (tl = [Ev_Unlink p] \<or> tl = [Ev_Unlink p, Ev_Unlink q])"
proof (cases rule: synthesize_speech_cases [of s E "text" ref_audio ref_text speed remove_silence])
  case unavailable
  with assms show ?thesis by simp
next
  case (no_text m)
  with assms show ?thesis by simp
next
  case (no_ref_text m)
  with assms show ?thesis by simp
next
  case (failed m e)
  with assms show ?thesis by simp
next
  case (succeeded m r)
  with assms have r: "r = resp" by simp
  from synthesize_body_Inr [OF succeeded(5) [unfolded r]] succeeded(1,4)
  show ?thesis by (simp add: r)
qed

text \<open>
  Claim C3.  When \<^verbatim>\<open>synthesize_speech\<close> returns a response, that response has
  \<open>success = True\<close>, \<open>format = "wav"\<close> and \<open>sample_rate = 24000\<close>.  The model was
  called on the uploaded bytes and returned a waveform \<open>w\<close>, as a tensor or not;
  \<^verbatim>\<open>sf.write\<close> was given that same \<open>w\<close> and the rate 24000, for a file whose name ends
  in \<open>.wav\<close>, and produced the bytes \<open>bs\<close>; and \<open>audio_base64\<close> is a text that base64
  decoding turns into \<open>bs\<close>.  The uploaded bytes are arbitrary: nothing of their own
  format or rate reaches the declared format and rate.
\<close>

theorem synthesize_success_is_wav_24000_base64:
  assumes "fst (synthesize_speech E text ref_audio ref_text speed remove_silence s) = Inr resp"
  shows "map_of resp ''success'' = Some (JBool True) \<and>
         map_of resp ''format'' = Some (JStr (str_lit ''wav'')) \<and>
         map_of resp ''sample_rate'' = Some (JInt 24000) \<and>
         (\<exists>m p q w bs payload.
            model s = Some m \<and>
            (infer E m p (Some ref_audio) ref_text text speed remove_silence = Inr (Tensor w) \<or>
             infer E m p (Some ref_audio) ref_text text speed remove_silence = Inr (NotTensor w)) \<and>
            sf_write E q w 24000 = Inr bs \<and> (\<exists>stem. q = stem @ ''.wav'') \<and>
            map_of resp ''audio_base64'' = Some (JStr payload) \<and>
            b64decode payload = Some bs)"
proof -
  from synthesize_success_response [OF assms] obtain m p q a bs where
    m: "model s = Some m"
    and a: "infer E m p (Some ref_audio) ref_text text speed remove_silence = Inr a"
    and q: "sf_write E q (to_numpy a) 24000 = Inr bs" "\<exists>stem. q = stem @ ''.wav''"
    and resp: "resp = [(''success'', JBool True),
                   (''audio_base64'', JStr (b64encode bs)),
                   (''format'', JStr (str_lit ''wav'')),
                   (''sample_rate'', JInt 24000),
                   (''processing_time'',
                      JFloat (clock E (Suc (clock_reads s)) - clock E (clock_reads s))),
                   (''text_length'', JInt (int (length text))),
                   (''ref_text'', JStr ref_text)]"
    by blast
  obtain w where w: "a = Tensor w \<or> a = NotTensor w" and n: "to_numpy a = w"
    by (cases a) simp_all
  from a w have
    "infer E m p (Some ref_audio) ref_text text speed remove_silence = Inr (Tensor w) \<or>
     infer E m p (Some ref_audio) ref_text text speed remove_silence = Inr (NotTensor w)"
    by auto
  moreover from q(1) n have "sf_write E q w 24000 = Inr bs" by simp
  moreover from resp have "map_of resp ''audio_base64'' = Some (JStr (b64encode bs))" by simp
  moreover have "b64decode (b64encode bs) = Some bs" by (rule b64decode_b64encode)
  moreover from resp have "map_of resp ''success'' = Some (JBool True)"
    "map_of resp ''format'' = Some (JStr (str_lit ''wav''))"
    "map_of resp ''sample_rate'' = Some (JInt 24000)"
    by simp_all
  ultimately show ?thesis using m q(2) by blast
qed

theorem synthesize_success_is_wav_24000_base64_witness:
  "fst (synthesize_speech env_ok hola_mundo ref_wav prueba 1 True st_ready) =
     Inr (response_hola 1) \<and>
   map_of (response_hola 1) ''success'' = Some (JBool True) \<and>
   map_of (response_hola 1) ''format'' = Some (JStr (str_lit ''wav'')) \<and>
   map_of (response_hola 1) ''sample_rate'' = Some (JInt 24000) \<and>
   (\<exists>m p q w bs payload.
      model st_ready = Some m \<and>
      (infer env_ok m p (Some ref_wav) prueba hola_mundo 1 True = Inr (Tensor w) \<or>
       infer env_ok m p (Some ref_wav) prueba hola_mundo 1 True = Inr (NotTensor w)) \<and>
      sf_write env_ok q w 24000 = Inr bs \<and> (\<exists>stem. q = stem @ ''.wav'') \<and>
      map_of (response_hola 1) ''audio_base64'' = Some (JStr payload) \<and>
      b64decode payload = Some bs)"
  by (rule conjI [OF synthesize_hola_ok
        synthesize_success_is_wav_24000_base64 [OF synthesize_hola_ok]])

text \<open>
  Claim C5.  In a successful response \<open>text_length\<close> is the number of code points of
  \<^verbatim>\<open>text\<close> as it was submitted; the stripped text is used for validation only.
\<close>

theorem synthesize_text_length_as_submitted:
  assumes "fst (synthesize_speech E text ref_audio ref_text speed remove_silence s) = Inr resp"
  shows "map_of resp ''text_length'' = Some (JInt (int (length text)))"
proof -
  from synthesize_success_response [OF assms] obtain bs where
    "resp = [(''success'', JBool True),
                   (''audio_base64'', JStr (b64encode bs)),
                   (''format'', JStr (str_lit ''wav'')),
                   (''sample_rate'', JInt 24000),
                   (''processing_time'',
                      JFloat (clock E (Suc (clock_reads s)) - clock E (clock_reads s))),
                   (''text_length'', JInt (int (length text))),
                   (''ref_text'', JStr ref_text)]"
    by blast
  then show ?thesis by simp
qed

theorem synthesize_text_length_as_submitted_witness:
  "fst (synthesize_speech env_ok hola_padded ref_wav prueba 1 True st_ready) =
     Inr [(''success'', JBool True),
          (''audio_base64'', JStr (str_lit ''UklG'')),
          (''format'', JStr (str_lit ''wav'')),
          (''sample_rate'', JInt 24000),
          (''processing_time'', JFloat 1),
          (''text_length'', JInt 13),
          (''ref_text'', JStr prueba)] \<and>
   length (strip hola_padded) = 10 \<and>
   int (length hola_padded) = 13"
proof -
  have "strip hola_padded = hola_mundo"
    by (simp add: strip_def hola_padded_def hola_mundo_def str_lit_def py_isspace_def)
  then show ?thesis
    using synthesize_padded_ok synthesize_text_length_as_submitted [OF synthesize_padded_ok]
    by (simp add: hola_values)
qed

subsection \<open>The measured time\<close>

text \<open>
  Claim C6, amended.  In a successful response \<open>processing_time\<close> is the second reading
  of \<^verbatim>\<open>time.time()\<close> minus the first one; it is non-negative exactly when the wall clock
  did not go back between the two readings.  The first reading is taken after validation
  and before the reference audio is saved, the second one after the encoded file has been
  read back and encoded in base64: between them lie the creation and the writing of the
  reference scratch file, the inference, and the encoding; the deletions come after the
  second reading.
\<close>

theorem processing_time_is_clock_difference:
  assumes "fst (synthesize_speech E text ref_audio ref_text speed remove_silence s) = Inr resp"
  shows "(\<exists>t. map_of resp ''processing_time'' = Some (JFloat t) \<and>
              t = clock E (Suc (clock_reads s)) - clock E (clock_reads s) \<and>
              (0 \<le> t \<longleftrightarrow> clock E (clock_reads s) \<le> clock E (Suc (clock_reads s)))) \<and>
         (\<exists>p q tl.
            trace (snd (synthesize_speech E text ref_audio ref_text speed remove_silence s)) =
              trace s @ [Ev_Time, Ev_MkTemp p, Ev_ReadUpload, Ev_Write p,
                         Ev_Infer p ref_text text, Ev_MkTemp q, Ev_SfWrite q 24000,
                         Ev_ReadBack q, Ev_Time] @ tl \<and>
            (tl = [Ev_Unlink p] \<or> tl = [Ev_Unlink p, Ev_Unlink q]))"
proof -
  from synthesize_success_response [OF assms] obtain p q bs tl where
    resp: "resp = [(''success'', JBool True),
                   (''audio_base64'', JStr (b64encode bs)),
                   (''format'', JStr (str_lit ''wav'')),
                   (''sample_rate'', JInt 24000),
                   (''processing_time'',
                      JFloat (clock E (Suc (clock_reads s)) - clock E (clock_reads s))),
                   (''text_length'', JInt (int (length text))),
                   (''ref_text'', JStr ref_text)]"
    and tr: "trace (snd (synthesize_speech E text ref_audio ref_text speed remove_silence s)) =
             trace s @ [Ev_Time, Ev_MkTemp p, Ev_ReadUpload, Ev_Write p,
                        Ev_Infer p ref_text text, Ev_MkTemp q, Ev_SfWrite q 24000,
                        Ev_ReadBack q, Ev_Time] @ tl"
      "tl = [Ev_Unlink p] \<or> tl = [Ev_Unlink p, Ev_Unlink q]"
    by blast
  from resp have "map_of resp ''processing_time'' =
      Some (JFloat (clock E (Suc (clock_reads s)) - clock E (clock_reads s)))"
    by simp
  then have "\<exists>t. map_of resp ''processing_time'' = Some (JFloat t) \<and>
              t = clock E (Suc (clock_reads s)) - clock E (clock_reads s) \<and>
              (0 \<le> t \<longleftrightarrow> clock E (clock_reads s) \<le> clock E (Suc (clock_reads s)))"
    by simp
  moreover from tr have "\<exists>p q tl.
            trace (snd (synthesize_speech E text ref_audio ref_text speed remove_silence s)) =
              trace s @ [Ev_Time, Ev_MkTemp p, Ev_ReadUpload, Ev_Write p,
                         Ev_Infer p ref_text text, Ev_MkTemp q, Ev_SfWrite q 24000,
                         Ev_ReadBack q, Ev_Time] @ tl \<and>
            (tl = [Ev_Unlink p] \<or> tl = [Ev_Unlink p, Ev_Unlink q])"
    by blast
  ultimately show ?thesis by (rule conjI)
qed

theorem processing_time_is_clock_difference_witness:
  "fst (synthesize_speech env_ok hola_mundo ref_wav prueba 1 True st_ready) =
     Inr (response_hola 1) \<and>
   (\<exists>t. map_of (response_hola 1) ''processing_time'' = Some (JFloat t) \<and>
        t = clock env_ok (Suc (clock_reads st_ready)) - clock env_ok (clock_reads st_ready) \<and>
        (0 \<le> t \<longleftrightarrow>
           clock env_ok (clock_reads st_ready) \<le> clock env_ok (Suc (clock_reads st_ready)))) \<and>
   (\<exists>p q tl.
      trace (snd (synthesize_speech env_ok hola_mundo ref_wav prueba 1 True st_ready)) =
        trace st_ready @ [Ev_Time, Ev_MkTemp p, Ev_ReadUpload, Ev_Write p,
                          Ev_Infer p prueba hola_mundo, Ev_MkTemp q, Ev_SfWrite q 24000,
                          Ev_ReadBack q, Ev_Time] @ tl \<and>
      (tl = [Ev_Unlink p] \<or> tl = [Ev_Unlink p, Ev_Unlink q]))"
  by (rule conjI [OF synthesize_hola_ok
        processing_time_is_clock_difference [OF synthesize_hola_ok]])

text \<open>
  As the claim was stated, \<open>processing_time\<close> would never be negative.
  \<^verbatim>\<open>time.time()\<close> is the wall clock: when it is set back from 10 to 5 during the request,
  the successful response carries \<open>-5\<close>.
\<close>

theorem processing_time_negative_counterexample:
  "fst (synthesize_speech env_clock_set_back hola_mundo ref_wav prueba 1 True st_ready) =
     Inr (response_hola (- 5)) \<and>
   map_of (response_hola (- 5)) ''processing_time'' = Some (JFloat (- 5)) \<and>
   \<not> (0::real) \<le> - 5"
  using synthesize_hola_clock_set_back by (simp add: response_hola_def)

subsection \<open>Scratch files\<close>

lemma with_unlink_raising_fields:
  "clock (with_unlink_raising X E) = clock E"
  "tmp_candidates (with_unlink_raising X E) = tmp_candidates E"
  "infer (with_unlink_raising X E) = infer E"
  "sf_write (with_unlink_raising X E) = sf_write E"
  "raises (with_unlink_raising X E) (MkTemp n) = raises E (MkTemp n)"
  "raises (with_unlink_raising X E) ReadUpload = raises E ReadUpload"
  "raises (with_unlink_raising X E) (WriteFile p) = raises E (WriteFile p)"
  "raises (with_unlink_raising X E) ImportSoundfile = raises E ImportSoundfile"
  "raises (with_unlink_raising X E) (ReadBack p) = raises E (ReadBack p)"
  "raises (with_unlink_raising X E) (Unlink p) = X p"
  by (simp_all add: with_unlink_raising_def)

lemma with_unlink_raising_steps:
  "time_time (with_unlink_raising X E) = time_time E"
  "NamedTemporaryFile (with_unlink_raising X E) = NamedTemporaryFile E"
  "save_ref_audio (with_unlink_raising X E) = save_ref_audio E"
  "encode_wav (with_unlink_raising X E) = encode_wav E"
  "infer_and_encode (with_unlink_raising X E) = infer_and_encode E"
proof -
  show t: "time_time (with_unlink_raising X E) = time_time E"
    by (simp add: fun_eq_iff time_time_def with_unlink_raising_fields)
  show n: "NamedTemporaryFile (with_unlink_raising X E) = NamedTemporaryFile E"
    by (simp add: fun_eq_iff NamedTemporaryFile_def with_unlink_raising_fields Let_def
        split: option.splits)
  show "save_ref_audio (with_unlink_raising X E) = save_ref_audio E"
    by (simp add: fun_eq_iff save_ref_audio_def n with_unlink_raising_fields Let_def
        split: option.splits sum.splits prod.splits)
  show e: "encode_wav (with_unlink_raising X E) = encode_wav E"
    by (simp add: fun_eq_iff encode_wav_def n with_unlink_raising_fields Let_def
        split: option.splits sum.splits prod.splits)
  show "infer_and_encode (with_unlink_raising X E) = infer_and_encode E"
    by (simp add: fun_eq_iff infer_and_encode_def e t with_unlink_raising_fields Let_def
        split: option.splits sum.splits prod.splits)
qed

lemma synthesize_body_unlink_swallowed:
  "fst (synthesize_body (with_unlink_raising X E) m text ref_audio ref_text speed remove_silence s) =
   fst (synthesize_body E m text ref_audio ref_text speed remove_silence s)"
  by (simp add: synthesize_body_def with_unlink_raising_steps split_beta
      split: sum.splits prod.splits)

lemma synthesize_speech_unlink_swallowed:
  "fst (synthesize_speech (with_unlink_raising X E) text ref_audio ref_text speed remove_silence s) =
   fst (synthesize_speech E text ref_audio ref_text speed remove_silence s)"
proof -
  have "fst (case b of (Inl e, s') \<Rightarrow> (Inl (f e), s') | (Inr r, s') \<Rightarrow> (Inr r, s')) =
        (case fst b of Inl e \<Rightarrow> Inl (f e) | Inr r \<Rightarrow> Inr r)"
    for b :: "(exc + response) \<times> state" and f :: "exc \<Rightarrow> http_exception"
    by (cases b; cases "fst b") auto
  then show ?thesis
    by (simp add: synthesize_speech_def synthesize_body_unlink_swallowed split: option.splits)
qed


lemma synthesize_hola_unlink_refused:
  "fst (synthesize_speech env_unlink_refused hola_mundo ref_wav prueba 1 True st_ready) =
     Inr (response_hola 1)"
  "files (snd (synthesize_speech env_unlink_refused hola_mundo ref_wav prueba 1 True st_ready))
     ''/tmp/tmpref.wav'' = Some ref_wav"
  "files (snd (synthesize_speech env_unlink_refused hola_mundo ref_wav prueba 1 True st_ready))
     ''/tmp/tmpout.wav'' = Some [0x52, 0x49, 0x46]"
  "trace (snd (synthesize_speech env_unlink_refused hola_mundo ref_wav prueba 1 True st_ready)) =
     trace st_ready @
     [Ev_Time, Ev_MkTemp ''/tmp/tmpref.wav'', Ev_ReadUpload, Ev_Write ''/tmp/tmpref.wav'',
      Ev_Infer ''/tmp/tmpref.wav'' prueba hola_mundo, Ev_MkTemp ''/tmp/tmpout.wav'',
      Ev_SfWrite ''/tmp/tmpout.wav'' 24000, Ev_ReadBack ''/tmp/tmpout.wav'', Ev_Time,
      Ev_Unlink ''/tmp/tmpref.wav'']"
  by (simp_all add: synthesize_unfold hola_values env_ok_def env_unlink_refused_def st_ready_def
      response_hola_def b64_digit_def str_lit_def)

text \<open>
  A failure before the inner \<^verbatim>\<open>try\<close> is entered: the scratch file exists, its write
  raises, and the handler answers 500 without a call of \<^verbatim>\<open>os.unlink\<close>.
\<close>

lemma synthesize_hola_disk_full:
  "fst (synthesize_speech env_disk_full hola_mundo ref_wav prueba 1 True st_ready) =
     Inl (HTTPException 500 (str_lit ''Error en s'' @ [237] @ str_lit ''ntesis: '' @
                              str_lit ''No space left on device''))"
  "files (snd (synthesize_speech env_disk_full hola_mundo ref_wav prueba 1 True st_ready))
     ''/tmp/tmpref.wav'' = Some []"
  "trace (snd (synthesize_speech env_disk_full hola_mundo ref_wav prueba 1 True st_ready)) =
     trace st_ready @
     [Ev_Time, Ev_MkTemp ''/tmp/tmpref.wav'', Ev_ReadUpload, Ev_Write ''/tmp/tmpref.wav'']"
  by (simp_all add: synthesize_unfold hola_values env_ok_def env_disk_full_def st_ready_def)

text \<open>
  Claim C4, amended.  For a call that passes validation and in which the reading of the
  upload and the writing of the reference scratch file do not raise: if no call of
  \<^verbatim>\<open>os.unlink\<close> raises, the filesystem after the call is the filesystem before it, on
  success as on any exception of inference or encoding, so both scratch files are gone;
  and an exception of \<^verbatim>\<open>os.unlink\<close> is swallowed: whatever the deletions raise, the
  handler's result is the same.
\<close>

theorem scratch_files_deleted_when_unlink_succeeds:
  assumes "model s = Some m"
    and "\<not> list_all py_isspace text" and "\<not> list_all py_isspace ref_text"
    and "raises E ReadUpload = None" and "\<forall>p. raises E (WriteFile p) = None"
    and "\<forall>p. raises E (Unlink p) = None"
  shows "files (snd (synthesize_speech E text ref_audio ref_text speed remove_silence s)) = files s \<and>
         (\<forall>X. fst (synthesize_speech (with_unlink_raising X E) text ref_audio ref_text speed
                     remove_silence s) =
               fst (synthesize_speech E text ref_audio ref_text speed remove_silence s))"
proof
  show "files (snd (synthesize_speech E text ref_audio ref_text speed remove_silence s)) = files s"
  proof (cases rule: synthesize_speech_cases [of s E "text" ref_audio ref_text speed remove_silence])
    case unavailable
    then show ?thesis by simp
  next
    case (no_text m)
    then show ?thesis by simp
  next
    case (no_ref_text m)
    then show ?thesis by simp
  next
    case (failed m' e)
    have "files (snd (synthesize_body E m' text ref_audio ref_text speed remove_silence s)) = files s"
      by (rule synthesize_body_files [OF prod.collapse [symmetric] assms(4-6)])
    with failed show ?thesis by simp
  next
    case (succeeded m' resp)
    have "files (snd (synthesize_body E m' text ref_audio ref_text speed remove_silence s)) = files s"
      by (rule synthesize_body_files [OF prod.collapse [symmetric] assms(4-6)])
    with succeeded show ?thesis by simp
  qed
  show "\<forall>X. fst (synthesize_speech (with_unlink_raising X E) text ref_audio ref_text speed
                     remove_silence s) =
               fst (synthesize_speech E text ref_audio ref_text speed remove_silence s)"
    by (simp add: synthesize_speech_unlink_swallowed)
qed

theorem scratch_files_deleted_when_unlink_succeeds_witness:
  "model st_ready = Some \<lparr>model_type = str_lit ''F5-TTS'', ckpt_file = None,
                          vocab_file = None, on_device = Cpu\<rparr> \<and>
   \<not> list_all py_isspace hola_mundo \<and> \<not> list_all py_isspace prueba \<and>
   raises env_ok ReadUpload = None \<and> (\<forall>p. raises env_ok (WriteFile p) = None) \<and>
   (\<forall>p. raises env_ok (Unlink p) = None) \<and>
   fst (synthesize_speech env_ok hola_mundo ref_wav prueba 1 True st_ready) =
     Inr (response_hola 1) \<and>
   files (snd (synthesize_speech env_ok hola_mundo ref_wav prueba 1 True st_ready)) = Map.empty \<and>
   fst (synthesize_speech
          (with_unlink_raising (\<lambda>p. Some (OtherException (str_lit ''Permission denied''))) env_ok)
          hola_mundo ref_wav prueba 1 True st_ready) = Inr (response_hola 1)"
proof -
  have m: "model st_ready = Some \<lparr>model_type = str_lit ''F5-TTS'', ckpt_file = None,
                          vocab_file = None, on_device = Cpu\<rparr>"
    by (simp add: st_ready_def)
  have e: "raises env_ok ReadUpload = None" "\<forall>p. raises env_ok (WriteFile p) = None"
    "\<forall>p. raises env_ok (Unlink p) = None"
    by (simp_all add: env_ok_def)
  have f: "files st_ready = Map.empty" by (simp add: st_ready_def)
  show ?thesis
    using scratch_files_deleted_when_unlink_succeeds
            [OF m hola_prueba_not_blank e, of ref_wav 1 True]
      m hola_prueba_not_blank e f synthesize_hola_ok
    by simp
qed

text \<open>
  As the claim was stated, no scratch file would remain after any call.  When
  \<^verbatim>\<open>os.unlink\<close> is refused, the handler answers with success and both files are still
  there: the handler \<^verbatim>\<open>pass\<close> swallows the exception and the files stay.
\<close>

theorem scratch_files_left_counterexample:
  "fst (synthesize_speech env_unlink_refused hola_mundo ref_wav prueba 1 True st_ready) =
     Inr (response_hola 1) \<and>
   files st_ready ''/tmp/tmpref.wav'' = None \<and>
   files st_ready ''/tmp/tmpout.wav'' = None \<and>
   files (snd (synthesize_speech env_unlink_refused hola_mundo ref_wav prueba 1 True st_ready))
     ''/tmp/tmpref.wav'' = Some ref_wav \<and>
   files (snd (synthesize_speech env_unlink_refused hola_mundo ref_wav prueba 1 True st_ready))
     ''/tmp/tmpout.wav'' = Some [0x52, 0x49, 0x46]"
  using synthesize_hola_unlink_refused(1-3) by (simp add: st_ready_def)

subsection \<open>Loading the model\<close>

lemmas load_model_unfold =
  load_model_def load_model_body_def import_f5_tts_def install_f5_tts_def time_time_def
  emit_def Let_def

lemma load_model_runs:
  "\<exists>b new. fst (load_model E s) = Inr b \<and>
     trace (snd (load_model E s)) = trace s @ new \<and>
     (\<not> b \<longrightarrow> model (snd (load_model E s)) = model s) \<and>
     (b \<longrightarrow> model (snd (load_model E s)) \<noteq> None) \<and>
     (case raises E (ImportF5TTS 0) of
        None \<Rightarrow> new = [Ev_Time, Ev_Import, Ev_Construct] @ (if b then [Ev_Time] else [])
      | Some (ImportError msg) \<Rightarrow>
          (case raises E PipInstall of
             Some e \<Rightarrow> \<not> b \<and> new = [Ev_Time, Ev_Import, Ev_PipInstall]
           | None \<Rightarrow>
               (\<exists>tl. new = [Ev_Time, Ev_Import, Ev_PipInstall, Ev_Import] @ tl \<and>
                     (if b then tl = [Ev_Construct, Ev_Time]
                      else tl = [] \<or> tl = [Ev_Construct])))
      | Some (OtherException msg) \<Rightarrow> \<not> b \<and> new = [Ev_Time, Ev_Import])"
proof (cases "raises E (ImportF5TTS 0)")
  case None
  then show ?thesis
    by (cases "raises E ConstructF5TTS") (auto simp: load_model_unfold)
next
  case (Some e0)
  show ?thesis
  proof (cases e0)
    case (OtherException msg)
    with Some show ?thesis by (auto simp: load_model_unfold)
  next
    case (ImportError msg)
    show ?thesis
    proof (cases "raises E PipInstall")
      case (Some e1)
      with \<open>raises E (ImportF5TTS 0) = Some e0\<close> ImportError show ?thesis
        by (auto simp: load_model_unfold)
    next
      case None
      with \<open>raises E (ImportF5TTS 0) = Some e0\<close> ImportError show ?thesis
        by (cases "raises E (ImportF5TTS 1)"; cases "raises E ConstructF5TTS")
           (auto simp: load_model_unfold)
    qed
  qed
qed

lemma load_pip_fails:
  "raises env_pip_fails (ImportF5TTS 0) = Some (ImportError (str_lit ''No module named f5_tts''))"
  "fst (load_model env_pip_fails (module_init Map.empty)) = Inr False"
  "trace (snd (load_model env_pip_fails (module_init Map.empty))) =
     [Ev_Time, Ev_Import, Ev_PipInstall]"
  "model (snd (load_model env_pip_fails (module_init Map.empty))) = None"
  by (simp_all add: load_model_unfold env_pip_fails_def env_ok_def module_init_def)




subsection \<open>The handlers and the module globals\<close>

lemma synthesize_speech_frame:
  "model (snd (synthesize_speech E text ref_audio ref_text speed remove_silence s)) = model s"
  "device (snd (synthesize_speech E text ref_audio ref_text speed remove_silence s)) = device s"
  "vocoder (snd (synthesize_speech E text ref_audio ref_text speed remove_silence s)) = vocoder s"
proof -
  have "model (snd (synthesize_speech E text ref_audio ref_text speed remove_silence s)) = model s \<and>
        device (snd (synthesize_speech E text ref_audio ref_text speed remove_silence s)) = device s \<and>
        vocoder (snd (synthesize_speech E text ref_audio ref_text speed remove_silence s)) = vocoder s"
  proof (cases rule: synthesize_speech_cases [of s E "text" ref_audio ref_text speed remove_silence])
    case unavailable
    then show ?thesis by simp
  next
    case (no_text m)
    then show ?thesis by simp
  next
    case (no_ref_text m)
    then show ?thesis by simp
  next
    case (failed m e)
    with synthesize_body_frame [OF prod.collapse [symmetric], of E m "text" ref_audio ref_text
        speed remove_silence s]
    show ?thesis by simp
  next
    case (succeeded m resp)
    with synthesize_body_frame [OF prod.collapse [symmetric], of E m "text" ref_audio ref_text
        speed remove_silence s]
    show ?thesis by simp
  qed
  then show
    "model (snd (synthesize_speech E text ref_audio ref_text speed remove_silence s)) = model s"
    "device (snd (synthesize_speech E text ref_audio ref_text speed remove_silence s)) = device s"
    "vocoder (snd (synthesize_speech E text ref_audio ref_text speed remove_silence s)) = vocoder s"
    by simp_all
qed

lemma status_handlers_frame:
  "model (snd (root s)) = model s" "device (snd (root s)) = device s"
  "model (snd (health_check E s)) = model s" "device (snd (health_check E s)) = device s"
  "model (snd (test_synthesis E s)) = model s" "device (snd (test_synthesis E s)) = device s"
  by (simp_all add: root_def health_check_def test_synthesis_def time_time_def emit_def
      split_beta Let_def split: option.splits)

lemma synthesize_route_frame:
  "model (snd (synthesize_route E f s)) = model s"
  "device (snd (synthesize_route E f s)) = device s"
  by (simp_all add: synthesize_route_def synthesize_speech_frame split: sum.splits prod.splits)

lemma dispatch_frame:
  "model (snd (dispatch E rq s)) = model s" "device (snd (dispatch E rq s)) = device s"
  by (cases rq; simp add: status_handlers_frame synthesize_route_frame split_beta)+

lemma serve_frame:
  "model (serve E rqs s) = model s \<and> device (serve E rqs s) = device s"
  by (induction rqs arbitrary: s) (simp_all add: dispatch_frame)

text \<open>
  Claim C8.  No handler assigns \<^verbatim>\<open>model\<close> or \<^verbatim>\<open>device\<close>: each of \<^verbatim>\<open>root\<close>,
  \<^verbatim>\<open>health_check\<close>, \<^verbatim>\<open>synthesize_speech\<close> and \<^verbatim>\<open>test_synthesis\<close> returns a state with
  the same two globals, and so does any sequence of requests.  Hence for the whole
  process, started from the module's initial globals: if the load at startup returned
  \<open>True\<close> the handle is set after any sequence of requests, and if it returned \<open>False\<close>
  the handle is unset after any sequence of requests.
\<close>

theorem handlers_leave_model_and_device:
  "model (snd (root s)) = model s \<and> device (snd (root s)) = device s \<and>
   model (snd (health_check E s)) = model s \<and> device (snd (health_check E s)) = device s \<and>
   model (snd (synthesize_speech E text ref_audio ref_text speed remove_silence s)) = model s \<and>
   device (snd (synthesize_speech E text ref_audio ref_text speed remove_silence s)) = device s \<and>
   model (snd (test_synthesis E s)) = model s \<and> device (snd (test_synthesis E s)) = device s \<and>
   model (serve E rqs s) = model s \<and> device (serve E rqs s) = device s \<and>
   (fst (load_model E (module_init fs)) = Inr True \<longrightarrow> model (run_process E rqs fs) \<noteq> None) \<and>
   (fst (load_model E (module_init fs)) = Inr False \<longrightarrow> model (run_process E rqs fs) = None)"
proof -
  have run: "model (run_process E rqs fs) = model (snd (load_model E (module_init fs)))"
    by (simp add: run_process_def startup_event_def serve_frame split_beta split: sum.splits)
  from load_model_runs [of E "module_init fs"] obtain b where
    b: "fst (load_model E (module_init fs)) = Inr b"
      "\<not> b \<longrightarrow> model (snd (load_model E (module_init fs))) = model (module_init fs)"
      "b \<longrightarrow> model (snd (load_model E (module_init fs))) \<noteq> None"
    by blast
  have "model (module_init fs) = None" by (simp add: module_init_def)
  with b run have
    "fst (load_model E (module_init fs)) = Inr True \<longrightarrow> model (run_process E rqs fs) \<noteq> None"
    "fst (load_model E (module_init fs)) = Inr False \<longrightarrow> model (run_process E rqs fs) = None"
    by auto
  then show ?thesis
    using serve_frame [of E rqs s]
    by (simp add: status_handlers_frame synthesize_speech_frame)
qed

theorem handlers_leave_model_and_device_witness:
  "fst (load_model env_ok (module_init Map.empty)) = Inr True \<and>
   model (run_process env_ok
            [GetRoot, PostSynthesize form_hola, PostTestSynthesis,
             GetHealth] Map.empty) \<noteq> None \<and>
   fst (load_model env_pip_fails (module_init Map.empty)) = Inr False \<and>
   model (run_process env_pip_fails
            [GetRoot, PostSynthesize form_hola, PostTestSynthesis,
             GetHealth] Map.empty) = None"
proof -
  have ok: "fst (load_model env_ok (module_init Map.empty)) = Inr True"
    by (simp add: load_model_unfold env_ok_def module_init_def)
  note bad = load_pip_fails(2)
  show ?thesis
    using ok bad
      handlers_leave_model_and_device [of st_ready env_ok hola_mundo ref_wav prueba 1 True
        "[GetRoot, PostSynthesize form_hola, PostTestSynthesis, GetHealth]"
        Map.empty]
      handlers_leave_model_and_device [of st_ready env_pip_fails hola_mundo ref_wav prueba 1 True
        "[GetRoot, PostSynthesize form_hola, PostTestSynthesis, GetHealth]"
        Map.empty]
    by simp
qed

subsection \<open>The test request\<close>

text \<open>
  Claim C9.  \<^verbatim>\<open>test_synthesis\<close> fails with the 503 error when the model handle is unset
  and leaves the state as it was; otherwise it returns \<open>success = True\<close>, the fixed
  message, the fixed test text, \<open>model_ready = True\<close> and the difference of two clock
  readings as \<open>processing_time\<close>.  The two clock readings are all it does outside the
  module: the model is not called and the filesystem is the same afterwards.
\<close>

theorem test_synthesis_is_a_readiness_echo:
  "(model s = None \<longrightarrow>
      test_synthesis E s = (Inl (HTTPException 503 (str_lit ''Modelo no cargado'')), s)) \<and>
   (model s \<noteq> None \<longrightarrow>
      fst (test_synthesis E s) =
        Inr [(''success'', JBool True),
             (''message'', JStr (str_lit ''Modelo funcionando correctamente'')),
             (''processing_time'',
                JFloat (clock E (Suc (clock_reads s)) - clock E (clock_reads s))),
             (''test_text'', JStr (str_lit ''Hola, esta es una prueba de s'' @ [237] @
                                   str_lit ''ntesis de voz.'')),
             (''model_ready'', JBool True)] \<and>
      trace (snd (test_synthesis E s)) = trace s @ [Ev_Time, Ev_Time]) \<and>
   files (snd (test_synthesis E s)) = files s"
  by (cases "model s") (simp_all add: test_synthesis_def time_time_def emit_def)

theorem test_synthesis_is_a_readiness_echo_witness:
  "model (module_init Map.empty) = None \<and>
   test_synthesis env_ok (module_init Map.empty) =
     (Inl (HTTPException 503 (str_lit ''Modelo no cargado'')), module_init Map.empty) \<and>
   model st_ready \<noteq> None \<and>
   fst (test_synthesis env_ok st_ready) =
     Inr [(''success'', JBool True),
          (''message'', JStr (str_lit ''Modelo funcionando correctamente'')),
          (''processing_time'', JFloat 1),
          (''test_text'', JStr (str_lit ''Hola, esta es una prueba de s'' @ [237] @
                                str_lit ''ntesis de voz.'')),
          (''model_ready'', JBool True)] \<and>
   trace (snd (test_synthesis env_ok st_ready)) = trace st_ready @ [Ev_Time, Ev_Time] \<and>
   files (snd (test_synthesis env_ok st_ready)) = files st_ready"
proof -
  have n: "model (module_init Map.empty) = None" by (simp add: module_init_def)
  have r: "model st_ready \<noteq> None" "clock_reads st_ready = 2" by (simp_all add: st_ready_def)
  have c: "clock env_ok (Suc 2) - clock env_ok 2 = 1" by (simp add: env_ok_def)
  show ?thesis
    using n r c test_synthesis_is_a_readiness_echo [of "module_init Map.empty" env_ok]
      test_synthesis_is_a_readiness_echo [of st_ready env_ok]
    by simp
qed

end
